theory Spec2Isabelle
  imports Main "HOL-Library.AList"
begin

section \<open>Tokens and syntax trees\<close>

text \<open>
  The token kinds of \<^verbatim>\<open>TokenType\<close>, and \<^verbatim>\<open>Token\<close> with its four attributes. A token's
  literal is \<^verbatim>\<open>None\<close>, a number or a string; the parser's \<^verbatim>\<open>Literal\<close> nodes also hold
  booleans. Numbers are Python floats (and, from some natives, ints): their carrier is the
  type parameter \<open>'n\<close>, and everything the program asks of a number is a field of the
  record \<open>pylib\<close> below.
\<close>

datatype TokenType =
    LEFT_PAREN | RIGHT_PAREN | LEFT_BRACE | RIGHT_BRACE | COMMA | DOT | MINUS | PLUS
  | SEMICOLON | SLASH | STAR
  | BANG | BANG_EQUAL | EQUAL | EQUAL_EQUAL | GREATER | GREATER_EQUAL | LESS | LESS_EQUAL
  | IDENTIFIER | STRING | NUMBER
  | AND | CLASS | ELSE | FALSE | FUN | IF | NIL | OR | PRINT | RETURN | THIS | TRUE | VAR
  | WHILE | NEW
  | EOF

datatype 'n pylit = LitNone | LitBool bool | LitNum 'n | LitStr string

datatype 'n Token = Token (ttype: TokenType) (lexeme: string) (literal: "'n pylit") (line: int)

datatype 'n Expr =
    Literal "'n pylit"
  | Grouping "'n Expr"
  | Unary "'n Token" "'n Expr"
  | Binary "'n Expr" "'n Token" "'n Expr"
  | Variable "'n Token"
  | Assign "'n Token" "'n Expr"
  | Logical "'n Expr" "'n Token" "'n Expr"
  | Call "'n Expr" "'n Token" "'n Expr list"
  | Get "'n Expr" "'n Token"
  | SetExpr "'n Expr" "'n Token" "'n Expr"
  | This "'n Token"
  | NewExpr "'n Token" "'n Expr list"

datatype 'n Stmt =
    ExpressionStmt "'n Expr"
  | PrintStmt "'n Expr"
  | VarStmt "'n Token" "'n Expr option"
  | BlockStmt "'n Stmt list"
  | IfStmt "'n Expr" "'n Stmt" "'n Stmt option"
  | WhileStmt "'n Expr" "'n Stmt"
  | FunctionDecl "'n FunctionStmt"
  | ReturnStmt "'n Token" "'n Expr option"
  | ClassStmt "'n Token" "'n FunctionStmt list"
and 'n FunctionStmt =
    FunctionStmt (fname: "'n Token") (params: "'n Token list") (body: "'n Stmt list")

section \<open>Runtime values\<close>

text \<open>
  Python objects with identity (functions, natives, classes, environments) carry the
  address they were allocated at; an instance is identified by its \<^verbatim>\<open>id\<close>, which
  \<^verbatim>\<open>make_instance\<close> never reuses. A function's closure is the address of an
  \<^verbatim>\<open>Environment\<close>. The lambdas that \<^verbatim>\<open>OInstance.get\<close> and the interpreter wrap in a
  \<^verbatim>\<open>NativeFunction\<close> are the constructors of \<open>native_func\<close>, with what each lambda
  captures (the instance and the line of the property token).
\<close>

datatype 'n OFunction =
  OFunction (fn_addr: nat) (fdecl: "'n FunctionStmt") (closure: nat) (is_initializer: bool)

datatype native_func =
    N_clock | N_str | N_type | N_len | N_input | N_assert
  | N_undo int int | N_redo int int | N_history int | N_id int
  | N_checkpoint int int | N_rollback int int | N_checkpoints int

datatype NativeFunction =
  NativeFunction (nf_addr: nat) (nf_name: string) (nf_arity: int) (nf_func: native_func)

datatype 'n OClass =
  OClass (cls_addr: nat) (cls_name: string) (methods: "(string \<times> 'n OFunction) list")

text \<open>
  The lists and dicts that natives return (\<^verbatim>\<open>history()\<close>, \<^verbatim>\<open>checkpoints()\<close>) and the
  trace events hold strings, ints, \<^verbatim>\<open>None\<close> and dicts of these.
\<close>

datatype jdata = JStr string | JInt int | JNull | JDict "(string \<times> jdata) list"

datatype 'n oval =
    VNone
  | VBool bool
  | VNum 'n
  | VStr string
  | VFunction "'n OFunction"
  | VNative NativeFunction
  | VClass "'n OClass"
  | VInstance int "'n OClass"
  | VList "jdata list"

text \<open>
  The \<^verbatim>\<open>old\<close> and \<^verbatim>\<open>new\<close> slots of a patch hold the sentinel \<^verbatim>\<open>_UNDEFINED\<close>, a value,
  or (in the patch that \<^verbatim>\<open>_rollback\<close> pushes) a dict copied from a field map.
\<close>

datatype 'n slot = Undefined | Val "'n oval" | Snapshot "(string \<times> 'n oval) list"

type_synonym 'n patch = "string \<times> 'n slot \<times> 'n slot \<times> int \<times> int"

text \<open>
  What a call can raise: the interpreter's own \<^verbatim>\<open>RuntimeError_\<close> and \<^verbatim>\<open>ReturnException\<close>,
  and the exceptions of Python that the modelled code can provoke. The last three are not
  exceptions of the program. \<open>HostObjectAsField\<close> stands where \<^verbatim>\<open>_undo\<close> or \<^verbatim>\<open>_redo\<close>
  would store a dict or the sentinel as the value of a field, which no patch the program
  builds leads to: a dict is only in a patch of the field \<^verbatim>\<open>__snapshot__\<close>, and the sentinel
  is only the old slot of a patch. \<open>DanglingReference\<close> stands where an address has nothing
  on the heap, \<open>OutOfFuel\<close> where a bounded recursion of the model has reached its bound.
\<close>

datatype 'n exc =
    RuntimeError "'n Token" string
  | ReturnException "'n oval"
  | TypeError string
  | ValueError string
  | EOFError
  | PyException string
  | HostObjectAsField
  | DanglingReference
  | OutOfFuel

text \<open>
  What the program takes from Python's numbers, from \<^verbatim>\<open>json.dumps\<close> and from \<^verbatim>\<open>str\<close> on a
  list. The theorems hold for every such library.
\<close>

record 'n pylib =
  n_of_bool :: "bool \<Rightarrow> 'n"
  n_of_int :: "int \<Rightarrow> 'n"
  n_neg :: "'n \<Rightarrow> 'n"
  n_add :: "'n \<Rightarrow> 'n \<Rightarrow> 'n"
  n_sub :: "'n \<Rightarrow> 'n \<Rightarrow> 'n"
  n_mul :: "'n \<Rightarrow> 'n \<Rightarrow> 'n"
  n_truediv :: "'n \<Rightarrow> 'n \<Rightarrow> 'n"
  n_gt :: "'n \<Rightarrow> 'n \<Rightarrow> bool"
  n_ge :: "'n \<Rightarrow> 'n \<Rightarrow> bool"
  n_lt :: "'n \<Rightarrow> 'n \<Rightarrow> bool"
  n_le :: "'n \<Rightarrow> 'n \<Rightarrow> bool"
  n_eq :: "'n \<Rightarrow> 'n \<Rightarrow> bool"
  n_is_integer_float :: "'n \<Rightarrow> bool"
  n_int :: "'n \<Rightarrow> int"
  n_str :: "'n \<Rightarrow> string"
  json_dumps_list :: "jdata list \<Rightarrow> string"
  py_repr_list :: "jdata list \<Rightarrow> string"
  json_dumps_dict :: "(string \<times> 'n oval) list \<Rightarrow> string"

section \<open>Serialization\<close>

fun str_nat :: "nat \<Rightarrow> string" where
  "str_nat n =
     (if n < 10 then [''0123456789'' ! n]
      else str_nat (n div 10) @ [''0123456789'' ! (n mod 10)])"

declare str_nat.simps [simp del]

definition str_int :: "int \<Rightarrow> string" where
  "str_int i = (if i < 0 then ''-'' @ str_nat (nat (- i)) else str_nat (nat i))"

text \<open>\<^verbatim>\<open>Interpreter.serialize_value\<close> on a value of the language: it cannot raise.\<close>

definition serialize_oval :: "'n pylib \<Rightarrow> 'n oval \<Rightarrow> string" where
  "serialize_oval L v =
     (case v of
        VNone \<Rightarrow> ''nil''
      | VBool b \<Rightarrow> (if b then ''true'' else ''false'')
      | VNum x \<Rightarrow> (if n_is_integer_float L x then str_int (n_int L x) else n_str L x)
      | VStr s \<Rightarrow> s
      | VInstance i k \<Rightarrow> ''<'' @ cls_name k @ ''#'' @ str_int i @ ''>''
      | VClass k \<Rightarrow> ''<class '' @ cls_name k @ ''>''
      | VFunction f \<Rightarrow> ''<fn '' @ lexeme (fname (fdecl f)) @ ''>''
      | VNative nf \<Rightarrow> ''<native fn '' @ nf_name nf @ ''>''
      | VList xs \<Rightarrow> json_dumps_list L xs)"

text \<open>
  \<^verbatim>\<open>json.dumps\<close> raises \<^verbatim>\<open>TypeError\<close> on an instance, a class or a function; a snapshot
  dict may hold one.
\<close>

definition json_ok :: "'n oval \<Rightarrow> bool" where
  "json_ok v =
     (case v of
        VFunction f \<Rightarrow> False | VNative nf \<Rightarrow> False | VClass k \<Rightarrow> False
      | VInstance i k \<Rightarrow> False | _ \<Rightarrow> True)"

text \<open>\<^verbatim>\<open>Interpreter.serialize_value\<close> on what a patch slot can hold.\<close>

definition serialize_value :: "'n pylib \<Rightarrow> 'n slot \<Rightarrow> 'n exc + string" where
  "serialize_value L v =
     (case v of
        Undefined \<Rightarrow> Inr ''<undefined>''
      | Val x \<Rightarrow> Inr (serialize_oval L x)
      | Snapshot d \<Rightarrow>
          (if list_all json_ok (map snd d) then Inr (json_dumps_dict L d)
           else Inl (TypeError ''Object is not JSON serializable'')))"

text \<open>
  Python's \<^verbatim>\<open>dict(x)\<close>, as \<^verbatim>\<open>_undo\<close> and \<^verbatim>\<open>_redo\<close> apply it to a patch slot: a dict is
  copied; an iterable of two-element sequences becomes a dict (the empty string and the
  empty list give the empty dict, a list of two-character strings maps first characters to
  second ones, later pairs overwriting earlier ones); everything else raises.
\<close>

fun dict_of_pairs :: "jdata list \<Rightarrow> (string \<times> 'n oval) list \<Rightarrow> 'n exc + (string \<times> 'n oval) list" where
  "dict_of_pairs [] acc = Inr acc"
| "dict_of_pairs (JStr [a, b] # xs) acc = dict_of_pairs xs (AList.update [a] (VStr [b]) acc)"
| "dict_of_pairs (JStr s # xs) acc = Inl (ValueError ''dictionary update sequence element has the wrong length'')"
| "dict_of_pairs (JDict [(k1, v1), (k2, v2)] # xs) acc = dict_of_pairs xs (AList.update k1 (VStr k2) acc)"
| "dict_of_pairs (JDict d # xs) acc = Inl (ValueError ''dictionary update sequence element has the wrong length'')"
| "dict_of_pairs (x # xs) acc = Inl (TypeError ''cannot convert dictionary update sequence element to a sequence'')"

definition py_dict :: "'n slot \<Rightarrow> 'n exc + (string \<times> 'n oval) list" where
  "py_dict v =
     (case v of
        Snapshot d \<Rightarrow> Inr d
      | Val (VStr s) \<Rightarrow>
          (if s = [] then Inr []
           else Inl (ValueError ''dictionary update sequence element has the wrong length''))
      | Val (VList xs) \<Rightarrow> dict_of_pairs xs []
      | _ \<Rightarrow> Inl (TypeError ''object is not iterable''))"

section \<open>The parser\<close>

text \<open>
  The parser's state is the list of tokens from \<^verbatim>\<open>self.current\<close> on: \<^verbatim>\<open>peek()\<close> is its
  head (Python's \<^verbatim>\<open>IndexError\<close> when there is none), and a token that \<^verbatim>\<open>match\<close> or
  \<^verbatim>\<open>consume\<close> has taken is \<^verbatim>\<open>previous()\<close>. Each method returns its result with the
  tokens left, or the error raised.
\<close>

datatype perr = ParseError string | IndexError | ParseFuel

type_synonym 'n eres = "perr + ('n Expr \<times> 'n Token list)"

definition pbind :: "'e + 'a \<Rightarrow> ('a \<Rightarrow> 'e + 'b) \<Rightarrow> 'e + 'b" where
  "pbind m f = (case m of Inl e \<Rightarrow> Inl e | Inr a \<Rightarrow> f a)"

definition Parser_error :: "'n Token \<Rightarrow> string \<Rightarrow> perr" where
  "Parser_error token message =
     ParseError (''[line '' @ str_int (line token) @ ''] Error at '' @ [CHR 0x27] @ lexeme token
                 @ [CHR 0x27] @ '': '' @ message)"

definition peek :: "'n Token list \<Rightarrow> perr + 'n Token" where
  "peek ts = (case ts of [] \<Rightarrow> Inl IndexError | t # rest \<Rightarrow> Inr t)"

definition is_at_end :: "'n Token list \<Rightarrow> perr + bool" where
  "is_at_end ts = pbind (peek ts) (\<lambda>t. Inr (ttype t = EOF))"

definition check :: "TokenType \<Rightarrow> 'n Token list \<Rightarrow> perr + bool" where
  "check ty ts =
     pbind (is_at_end ts) (\<lambda>e. if e then Inr False else pbind (peek ts) (\<lambda>t. Inr (ttype t = ty)))"

text \<open>
  \<^verbatim>\<open>match(*types)\<close>: the token taken, if the next token has one of the types, with the
  tokens left.
\<close>

primrec Parser_match ::
  "TokenType list \<Rightarrow> 'n Token list \<Rightarrow> perr + ('n Token option \<times> 'n Token list)" where
  "Parser_match [] ts = Inr (None, ts)"
| "Parser_match (ty # tys) ts =
     pbind (check ty ts) (\<lambda>b. if b then Inr (Some (hd ts), tl ts) else Parser_match tys ts)"

definition consume ::
  "TokenType \<Rightarrow> string \<Rightarrow> 'n Token list \<Rightarrow> perr + ('n Token \<times> 'n Token list)" where
  "consume ty message ts =
     pbind (check ty ts) (\<lambda>b.
       if b then Inr (hd ts, tl ts) else pbind (peek ts) (\<lambda>t. Inl (Parser_error t message)))"

text \<open>
  The \<^verbatim>\<open>while\<close> loops of the parser take a bound on their iterations, one more than the
  number of tokens left when they start: every iteration takes at least one token. The
  loops of \<^verbatim>\<open>or_\<close>, \<^verbatim>\<open>and_\<close>, \<^verbatim>\<open>equality\<close>, \<^verbatim>\<open>comparison\<close>, \<^verbatim>\<open>term\<close> and \<^verbatim>\<open>factor\<close>
  differ in the operator types, the node built and the method that parses an operand.
\<close>

primrec binary_loop ::
  "nat \<Rightarrow> TokenType list \<Rightarrow> ('n Expr \<Rightarrow> 'n Token \<Rightarrow> 'n Expr \<Rightarrow> 'n Expr) \<Rightarrow>
   ('n Token list \<Rightarrow> 'n eres) \<Rightarrow> 'n Expr \<Rightarrow> 'n Token list \<Rightarrow> 'n eres" where
  "binary_loop 0 tys mk operand expr ts = Inl ParseFuel"
| "binary_loop (Suc k) tys mk operand expr ts =
     pbind (Parser_match tys ts) (\<lambda>(m, ts).
       case m of
         None \<Rightarrow> Inr (expr, ts)
       | Some op \<Rightarrow>
           pbind (operand ts) (\<lambda>(right, ts). binary_loop k tys mk operand (mk expr op right) ts))"

text \<open>The argument loop of \<^verbatim>\<open>finish_call\<close>, with its check of the 255 limit.\<close>

primrec finish_call_loop ::
  "nat \<Rightarrow> ('n Token list \<Rightarrow> 'n eres) \<Rightarrow> 'n Expr list \<Rightarrow> 'n Token list \<Rightarrow>
   perr + ('n Expr list \<times> 'n Token list)" where
  "finish_call_loop 0 expression args ts = Inl ParseFuel"
| "finish_call_loop (Suc k) expression args ts =
     (if length args \<ge> 255 then
        pbind (peek ts) (\<lambda>t. Inl (Parser_error t ''Can't have more than 255 arguments.''))
      else
        pbind (expression ts) (\<lambda>(e, ts).
        pbind (Parser_match [COMMA] ts) (\<lambda>(m, ts).
          case m of
            None \<Rightarrow> Inr (args @ [e], ts)
          | Some comma \<Rightarrow> finish_call_loop k expression (args @ [e]) ts)))"

definition finish_call ::
  "('n Token list \<Rightarrow> 'n eres) \<Rightarrow> 'n Expr \<Rightarrow> 'n Token list \<Rightarrow> 'n eres" where
  "finish_call expression callee ts =
     pbind (check RIGHT_PAREN ts) (\<lambda>b.
     pbind (if \<not> b then finish_call_loop (Suc (length ts)) expression [] ts else Inr ([], ts))
       (\<lambda>(args, ts).
     pbind (consume RIGHT_PAREN ''Expect ')' after arguments.'' ts) (\<lambda>(paren, ts).
       Inr (Call callee paren args, ts))))"

text \<open>The argument loop of the \<^verbatim>\<open>new\<close> branch of \<^verbatim>\<open>primary\<close>.\<close>

primrec primary_new_loop ::
  "nat \<Rightarrow> ('n Token list \<Rightarrow> 'n eres) \<Rightarrow> 'n Expr list \<Rightarrow> 'n Token list \<Rightarrow>
   perr + ('n Expr list \<times> 'n Token list)" where
  "primary_new_loop 0 expression args ts = Inl ParseFuel"
| "primary_new_loop (Suc k) expression args ts =
     pbind (expression ts) (\<lambda>(e, ts).
     pbind (Parser_match [COMMA] ts) (\<lambda>(m, ts).
       case m of
         None \<Rightarrow> Inr (args @ [e], ts)
       | Some comma \<Rightarrow> primary_new_loop k expression (args @ [e]) ts))"

definition parse_primary :: "('n Token list \<Rightarrow> 'n eres) \<Rightarrow> 'n Token list \<Rightarrow> 'n eres" where
  "parse_primary expression ts =
     pbind (Parser_match [FALSE] ts) (\<lambda>(m, ts).
       case m of Some t \<Rightarrow> Inr (Literal (LitBool False), ts) | None \<Rightarrow>
     pbind (Parser_match [TRUE] ts) (\<lambda>(m, ts).
       case m of Some t \<Rightarrow> Inr (Literal (LitBool True), ts) | None \<Rightarrow>
     pbind (Parser_match [NIL] ts) (\<lambda>(m, ts).
       case m of Some t \<Rightarrow> Inr (Literal LitNone, ts) | None \<Rightarrow>
     pbind (Parser_match [NUMBER, STRING] ts) (\<lambda>(m, ts).
       case m of Some t \<Rightarrow> Inr (Literal (literal t), ts) | None \<Rightarrow>
     pbind (Parser_match [THIS] ts) (\<lambda>(m, ts).
       case m of Some t \<Rightarrow> Inr (This t, ts) | None \<Rightarrow>
     pbind (Parser_match [NEW] ts) (\<lambda>(m, ts).
       case m of
         Some t \<Rightarrow>
           pbind (consume IDENTIFIER ''Expect class name after 'new'.'' ts) (\<lambda>(class_name, ts).
           pbind (consume LEFT_PAREN ''Expect '(' after class name.'' ts) (\<lambda>(lp, ts).
           pbind (check RIGHT_PAREN ts) (\<lambda>b.
           pbind (if \<not> b then primary_new_loop (Suc (length ts)) expression [] ts
                  else Inr ([], ts)) (\<lambda>(args, ts).
           pbind (consume RIGHT_PAREN ''Expect ')' after arguments.'' ts) (\<lambda>(rp, ts).
             Inr (NewExpr class_name args, ts))))))
       | None \<Rightarrow>
     pbind (Parser_match [IDENTIFIER] ts) (\<lambda>(m, ts).
       case m of Some t \<Rightarrow> Inr (Variable t, ts) | None \<Rightarrow>
     pbind (Parser_match [LEFT_PAREN] ts) (\<lambda>(m, ts).
       case m of
         Some t \<Rightarrow>
           pbind (expression ts) (\<lambda>(expr, ts).
           pbind (consume RIGHT_PAREN ''Expect ')' after expression.'' ts) (\<lambda>(rp, ts).
             Inr (Grouping expr, ts)))
       | None \<Rightarrow> pbind (peek ts) (\<lambda>t. Inl (Parser_error t ''Expect expression.''))))))))))"

primrec call_loop ::
  "nat \<Rightarrow> ('n Token list \<Rightarrow> 'n eres) \<Rightarrow> 'n Expr \<Rightarrow> 'n Token list \<Rightarrow> 'n eres" where
  "call_loop 0 expression expr ts = Inl ParseFuel"
| "call_loop (Suc k) expression expr ts =
     pbind (Parser_match [LEFT_PAREN] ts) (\<lambda>(m, ts).
       case m of
         Some lp \<Rightarrow>
           pbind (finish_call expression expr ts) (\<lambda>(expr, ts). call_loop k expression expr ts)
       | None \<Rightarrow>
           pbind (Parser_match [DOT] ts) (\<lambda>(m, ts).
             case m of
               Some dot \<Rightarrow>
                 pbind (consume IDENTIFIER ''Expect property name after '.'.'' ts) (\<lambda>(name, ts).
                   call_loop k expression (Get expr name) ts)
             | None \<Rightarrow> Inr (expr, ts)))"

definition parse_call :: "('n Token list \<Rightarrow> 'n eres) \<Rightarrow> 'n Token list \<Rightarrow> 'n eres" where
  "parse_call expression ts =
     pbind (parse_primary expression ts) (\<lambda>(expr, ts).
       call_loop (Suc (length ts)) expression expr ts)"

text \<open>
  The methods that call themselves or are called from below (\<^verbatim>\<open>expression\<close>,
  \<^verbatim>\<open>assignment\<close>, \<^verbatim>\<open>unary\<close>) get these calls as the parameter \<open>self\<close>; the recursion is
  closed below by \<open>parse_rec\<close>, over the depth of recursion still allowed.
\<close>

datatype grammar_rule = N_expression | N_assignment | N_unary

definition parse_unary ::
  "(grammar_rule \<Rightarrow> 'n Token list \<Rightarrow> 'n eres) \<Rightarrow> 'n Token list \<Rightarrow> 'n eres" where
  "parse_unary self ts =
     pbind (Parser_match [BANG, MINUS] ts) (\<lambda>(m, ts).
       case m of
         Some op \<Rightarrow> pbind (self N_unary ts) (\<lambda>(right, ts). Inr (Unary op right, ts))
       | None \<Rightarrow> parse_call (self N_expression) ts)"

definition parse_factor ::
  "(grammar_rule \<Rightarrow> 'n Token list \<Rightarrow> 'n eres) \<Rightarrow> 'n Token list \<Rightarrow> 'n eres" where
  "parse_factor self ts =
     pbind (parse_unary self ts) (\<lambda>(expr, ts).
       binary_loop (Suc (length ts)) [SLASH, STAR] Binary (parse_unary self) expr ts)"

definition parse_term ::
  "(grammar_rule \<Rightarrow> 'n Token list \<Rightarrow> 'n eres) \<Rightarrow> 'n Token list \<Rightarrow> 'n eres" where
  "parse_term self ts =
     pbind (parse_factor self ts) (\<lambda>(expr, ts).
       binary_loop (Suc (length ts)) [MINUS, PLUS] Binary (parse_factor self) expr ts)"

definition parse_comparison ::
  "(grammar_rule \<Rightarrow> 'n Token list \<Rightarrow> 'n eres) \<Rightarrow> 'n Token list \<Rightarrow> 'n eres" where
  "parse_comparison self ts =
     pbind (parse_term self ts) (\<lambda>(expr, ts).
       binary_loop (Suc (length ts)) [GREATER, GREATER_EQUAL, LESS, LESS_EQUAL] Binary
         (parse_term self) expr ts)"

definition parse_equality ::
  "(grammar_rule \<Rightarrow> 'n Token list \<Rightarrow> 'n eres) \<Rightarrow> 'n Token list \<Rightarrow> 'n eres" where
  "parse_equality self ts =
     pbind (parse_comparison self ts) (\<lambda>(expr, ts).
       binary_loop (Suc (length ts)) [BANG_EQUAL, EQUAL_EQUAL] Binary (parse_comparison self) expr ts)"

definition parse_and ::
  "(grammar_rule \<Rightarrow> 'n Token list \<Rightarrow> 'n eres) \<Rightarrow> 'n Token list \<Rightarrow> 'n eres" where
  "parse_and self ts =
     pbind (parse_equality self ts) (\<lambda>(expr, ts).
       binary_loop (Suc (length ts)) [AND] Logical (parse_equality self) expr ts)"

definition parse_or ::
  "(grammar_rule \<Rightarrow> 'n Token list \<Rightarrow> 'n eres) \<Rightarrow> 'n Token list \<Rightarrow> 'n eres" where
  "parse_or self ts =
     pbind (parse_and self ts) (\<lambda>(expr, ts).
       binary_loop (Suc (length ts)) [OR] Logical (parse_and self) expr ts)"

definition parse_assignment ::
  "(grammar_rule \<Rightarrow> 'n Token list \<Rightarrow> 'n eres) \<Rightarrow> 'n Token list \<Rightarrow> 'n eres" where
  "parse_assignment self ts =
     pbind (parse_or self ts) (\<lambda>(expr, ts).
     pbind (Parser_match [EQUAL] ts) (\<lambda>(m, ts).
       case m of
         None \<Rightarrow> Inr (expr, ts)
       | Some equals \<Rightarrow>
           pbind (self N_assignment ts) (\<lambda>(v, ts).
             case expr of
               Variable name \<Rightarrow> Inr (Assign name v, ts)
             | Get obj name \<Rightarrow> Inr (SetExpr obj name v, ts)
             | _ \<Rightarrow> Inl (Parser_error equals ''Invalid assignment target.''))))"

primrec parse_rec :: "nat \<Rightarrow> grammar_rule \<Rightarrow> 'n Token list \<Rightarrow> 'n eres" where
  "parse_rec 0 r ts = Inl ParseFuel"
| "parse_rec (Suc n) r ts =
     (case r of
        N_expression \<Rightarrow> parse_assignment (parse_rec n) ts
      | N_assignment \<Rightarrow> parse_assignment (parse_rec n) ts
      | N_unary \<Rightarrow> parse_unary (parse_rec n) ts)"

definition parse_expression :: "nat \<Rightarrow> 'n Token list \<Rightarrow> 'n eres" where
  "parse_expression n ts = parse_rec n N_expression ts"

type_synonym 'n sres = "perr + ('n Stmt \<times> 'n Token list)"

definition var_declaration :: "('n Token list \<Rightarrow> 'n eres) \<Rightarrow> 'n Token list \<Rightarrow> 'n sres" where
  "var_declaration expression ts =
     pbind (consume IDENTIFIER ''Expect variable name.'' ts) (\<lambda>(name, ts).
     pbind (Parser_match [EQUAL] ts) (\<lambda>(m, ts).
     pbind (case m of
              Some eq \<Rightarrow> pbind (expression ts) (\<lambda>(e, ts). Inr (Some e, ts))
            | None \<Rightarrow> Inr (None, ts)) (\<lambda>(initializer, ts).
     pbind (consume SEMICOLON ''Expect ';' after variable declaration.'' ts) (\<lambda>(semi, ts).
       Inr (VarStmt name initializer, ts)))))"

definition return_statement ::
  "('n Token list \<Rightarrow> 'n eres) \<Rightarrow> 'n Token \<Rightarrow> 'n Token list \<Rightarrow> 'n sres" where
  "return_statement expression keyword ts =
     pbind (check SEMICOLON ts) (\<lambda>b.
     pbind (if \<not> b then pbind (expression ts) (\<lambda>(e, ts). Inr (Some e, ts))
            else Inr (None, ts)) (\<lambda>(v, ts).
     pbind (consume SEMICOLON ''Expect ';' after return value.'' ts) (\<lambda>(semi, ts).
       Inr (ReturnStmt keyword v, ts))))"

definition if_statement ::
  "('n Token list \<Rightarrow> 'n eres) \<Rightarrow> ('n Token list \<Rightarrow> 'n sres) \<Rightarrow> 'n Token list \<Rightarrow> 'n sres" where
  "if_statement expression statement ts =
     pbind (consume LEFT_PAREN ''Expect '(' after 'if'.'' ts) (\<lambda>(lp, ts).
     pbind (expression ts) (\<lambda>(condition, ts).
     pbind (consume RIGHT_PAREN ''Expect ')' after if condition.'' ts) (\<lambda>(rp, ts).
     pbind (statement ts) (\<lambda>(then_branch, ts).
     pbind (Parser_match [ELSE] ts) (\<lambda>(m, ts).
     pbind (case m of
              Some el \<Rightarrow> pbind (statement ts) (\<lambda>(s, ts). Inr (Some s, ts))
            | None \<Rightarrow> Inr (None, ts)) (\<lambda>(else_branch, ts).
       Inr (IfStmt condition then_branch else_branch, ts)))))))"

definition while_statement ::
  "('n Token list \<Rightarrow> 'n eres) \<Rightarrow> ('n Token list \<Rightarrow> 'n sres) \<Rightarrow> 'n Token list \<Rightarrow> 'n sres" where
  "while_statement expression statement ts =
     pbind (consume LEFT_PAREN ''Expect '(' after 'while'.'' ts) (\<lambda>(lp, ts).
     pbind (expression ts) (\<lambda>(condition, ts).
     pbind (consume RIGHT_PAREN ''Expect ')' after condition.'' ts) (\<lambda>(rp, ts).
     pbind (statement ts) (\<lambda>(body, ts).
       Inr (WhileStmt condition body, ts)))))"

primrec block_loop ::
  "nat \<Rightarrow> ('n Token list \<Rightarrow> 'n sres) \<Rightarrow> 'n Stmt list \<Rightarrow> 'n Token list \<Rightarrow>
   perr + ('n Stmt list \<times> 'n Token list)" where
  "block_loop 0 declaration statements ts = Inl ParseFuel"
| "block_loop (Suc k) declaration statements ts =
     pbind (check RIGHT_BRACE ts) (\<lambda>b.
     pbind (is_at_end ts) (\<lambda>e.
       if \<not> b \<and> \<not> e then
         pbind (declaration ts) (\<lambda>(s, ts). block_loop k declaration (statements @ [s]) ts)
       else Inr (statements, ts)))"

definition parse_block ::
  "('n Token list \<Rightarrow> 'n sres) \<Rightarrow> 'n Token list \<Rightarrow> perr + ('n Stmt list \<times> 'n Token list)" where
  "parse_block declaration ts =
     pbind (block_loop (Suc (length ts)) declaration [] ts) (\<lambda>(statements, ts).
     pbind (consume RIGHT_BRACE ''Expect '}' after block.'' ts) (\<lambda>(rb, ts).
       Inr (statements, ts)))"

definition print_stmt :: "('n Token list \<Rightarrow> 'n eres) \<Rightarrow> 'n Token list \<Rightarrow> 'n sres" where
  "print_stmt expression ts =
     pbind (expression ts) (\<lambda>(v, ts).
     pbind (consume SEMICOLON ''Expect ';' after value.'' ts) (\<lambda>(semi, ts).
       Inr (PrintStmt v, ts)))"

definition expression_statement :: "('n Token list \<Rightarrow> 'n eres) \<Rightarrow> 'n Token list \<Rightarrow> 'n sres" where
  "expression_statement expression ts =
     pbind (expression ts) (\<lambda>(expr, ts).
     pbind (consume SEMICOLON ''Expect ';' after expression.'' ts) (\<lambda>(semi, ts).
       Inr (ExpressionStmt expr, ts)))"

text \<open>
  \<^verbatim>\<open>statement\<close> and \<^verbatim>\<open>declaration\<close> call each other and themselves: these calls are the
  parameter \<open>self\<close>, and \<open>stmt_rec\<close> closes the recursion.
\<close>

datatype stmt_rule = N_declaration | N_statement

definition parse_statement ::
  "('n Token list \<Rightarrow> 'n eres) \<Rightarrow> (stmt_rule \<Rightarrow> 'n Token list \<Rightarrow> 'n sres) \<Rightarrow> 'n Token list \<Rightarrow> 'n sres" where
  "parse_statement expression self ts =
     pbind (Parser_match [PRINT] ts) (\<lambda>(m, ts).
       case m of Some t \<Rightarrow> print_stmt expression ts | None \<Rightarrow>
     pbind (Parser_match [LEFT_BRACE] ts) (\<lambda>(m, ts).
       case m of
         Some t \<Rightarrow>
           pbind (parse_block (self N_declaration) ts) (\<lambda>(statements, ts).
             Inr (BlockStmt statements, ts))
       | None \<Rightarrow>
     pbind (Parser_match [IF] ts) (\<lambda>(m, ts).
       case m of Some t \<Rightarrow> if_statement expression (self N_statement) ts | None \<Rightarrow>
     pbind (Parser_match [WHILE] ts) (\<lambda>(m, ts).
       case m of Some t \<Rightarrow> while_statement expression (self N_statement) ts | None \<Rightarrow>
     pbind (Parser_match [RETURN] ts) (\<lambda>(m, ts).
       case m of
         Some keyword \<Rightarrow> return_statement expression keyword ts
       | None \<Rightarrow> expression_statement expression ts)))))"

text \<open>The parameter loop of \<^verbatim>\<open>function\<close>, with its check of the 255 limit.\<close>

primrec function_params_loop ::
  "nat \<Rightarrow> 'n Token list \<Rightarrow> 'n Token list \<Rightarrow> perr + ('n Token list \<times> 'n Token list)" where
  "function_params_loop 0 ps ts = Inl ParseFuel"
| "function_params_loop (Suc k) ps ts =
     (if length ps \<ge> 255 then
        pbind (peek ts) (\<lambda>t. Inl (Parser_error t ''Can't have more than 255 parameters.''))
      else
        pbind (consume IDENTIFIER ''Expect parameter name.'' ts) (\<lambda>(p, ts).
        pbind (Parser_match [COMMA] ts) (\<lambda>(m, ts).
          case m of
            None \<Rightarrow> Inr (ps @ [p], ts)
          | Some comma \<Rightarrow> function_params_loop k (ps @ [p]) ts)))"

definition parse_function ::
  "string \<Rightarrow> ('n Token list \<Rightarrow> 'n sres) \<Rightarrow> 'n Token list \<Rightarrow>
   perr + ('n FunctionStmt \<times> 'n Token list)" where
  "parse_function kind declaration ts =
     pbind (consume IDENTIFIER (''Expect '' @ kind @ '' name.'') ts) (\<lambda>(name, ts).
     pbind (consume LEFT_PAREN (''Expect '(' after '' @ kind @ '' name.'') ts) (\<lambda>(lp, ts).
     pbind (check RIGHT_PAREN ts) (\<lambda>b.
     pbind (if \<not> b then function_params_loop (Suc (length ts)) [] ts else Inr ([], ts))
       (\<lambda>(params, ts).
     pbind (consume RIGHT_PAREN ''Expect ')' after parameters.'' ts) (\<lambda>(rp, ts).
     pbind (consume LEFT_BRACE (''Expect '{' before '' @ kind @ '' body.'') ts) (\<lambda>(lb, ts).
     pbind (parse_block declaration ts) (\<lambda>(body, ts).
       Inr (FunctionStmt name params body, ts))))))))"

primrec class_methods_loop ::
  "nat \<Rightarrow> ('n Token list \<Rightarrow> 'n sres) \<Rightarrow> 'n FunctionStmt list \<Rightarrow> 'n Token list \<Rightarrow>
   perr + ('n FunctionStmt list \<times> 'n Token list)" where
  "class_methods_loop 0 declaration ms ts = Inl ParseFuel"
| "class_methods_loop (Suc k) declaration ms ts =
     pbind (check RIGHT_BRACE ts) (\<lambda>b.
     pbind (is_at_end ts) (\<lambda>e.
       if \<not> b \<and> \<not> e then
         pbind (consume FUN ''Expect 'fun' before method declaration.'' ts) (\<lambda>(f, ts).
         pbind (parse_function ''method'' declaration ts) (\<lambda>(m, ts).
           class_methods_loop k declaration (ms @ [m]) ts))
       else Inr (ms, ts)))"

definition class_declaration ::
  "('n Token list \<Rightarrow> 'n sres) \<Rightarrow> 'n Token list \<Rightarrow> 'n sres" where
  "class_declaration declaration ts =
     pbind (consume IDENTIFIER ''Expect class name.'' ts) (\<lambda>(name, ts).
     pbind (consume LEFT_BRACE ''Expect '{' before class body.'' ts) (\<lambda>(lb, ts).
     pbind (class_methods_loop (Suc (length ts)) declaration [] ts) (\<lambda>(methods, ts).
     pbind (consume RIGHT_BRACE ''Expect '}' after class body.'' ts) (\<lambda>(rb, ts).
       Inr (ClassStmt name methods, ts)))))"

definition parse_declaration ::
  "('n Token list \<Rightarrow> 'n eres) \<Rightarrow> (stmt_rule \<Rightarrow> 'n Token list \<Rightarrow> 'n sres) \<Rightarrow> 'n Token list \<Rightarrow> 'n sres" where
  "parse_declaration expression self ts =
     pbind (Parser_match [CLASS] ts) (\<lambda>(m, ts).
       case m of Some t \<Rightarrow> class_declaration (self N_declaration) ts | None \<Rightarrow>
     pbind (Parser_match [FUN] ts) (\<lambda>(m, ts).
       case m of
         Some t \<Rightarrow>
           pbind (parse_function ''function'' (self N_declaration) ts) (\<lambda>(f, ts).
             Inr (FunctionDecl f, ts))
       | None \<Rightarrow>
     pbind (Parser_match [VAR] ts) (\<lambda>(m, ts).
       case m of
         Some t \<Rightarrow> var_declaration expression ts
       | None \<Rightarrow> self N_statement ts)))"

primrec stmt_rec ::
  "nat \<Rightarrow> ('n Token list \<Rightarrow> 'n eres) \<Rightarrow> stmt_rule \<Rightarrow> 'n Token list \<Rightarrow> 'n sres" where
  "stmt_rec 0 expression r ts = Inl ParseFuel"
| "stmt_rec (Suc n) expression r ts =
     (case r of
        N_declaration \<Rightarrow> parse_declaration expression (stmt_rec n expression) ts
      | N_statement \<Rightarrow> parse_statement expression (stmt_rec n expression) ts)"

primrec parse_loop ::
  "nat \<Rightarrow> ('n Token list \<Rightarrow> 'n sres) \<Rightarrow> 'n Stmt list \<Rightarrow> 'n Token list \<Rightarrow> perr + 'n Stmt list" where
  "parse_loop 0 declaration statements ts = Inl ParseFuel"
| "parse_loop (Suc k) declaration statements ts =
     pbind (is_at_end ts) (\<lambda>e.
       if \<not> e then
         pbind (declaration ts) (\<lambda>(s, ts). parse_loop k declaration (statements @ [s]) ts)
       else Inr statements)"

text \<open>
  \<^verbatim>\<open>Parser(tokens).parse()\<close>, with at most \<open>n\<close> nested calls of the recursive methods.
\<close>

definition parse :: "nat \<Rightarrow> 'n Token list \<Rightarrow> perr + 'n Stmt list" where
  "parse n tokens =
     parse_loop (Suc (length tokens)) (stmt_rec n (parse_expression n) N_declaration) [] tokens"

text \<open>
  Token lists for the parser: \<open>many_args j\<close> is \<open>j + 1\<close> literals \<^verbatim>\<open>0\<close> separated by
  commas, \<open>new_tokens j\<close> is \<^verbatim>\<open>new C(0, ..., 0);\<close> and \<open>call_tokens j\<close> is
  \<^verbatim>\<open>C(0, ..., 0);\<close> with these arguments, as the scanner gives them (with the final
  \<^verbatim>\<open>EOF\<close>).
\<close>

definition tk :: "TokenType \<Rightarrow> string \<Rightarrow> int Token" where
  "tk ty s = Token ty s LitNone 1"

definition num0 :: "int Token" where
  "num0 = Token NUMBER ''0'' (LitNum 0) 1"

primrec many_args :: "nat \<Rightarrow> int Token list" where
  "many_args 0 = [num0]"
| "many_args (Suc j) = num0 # tk COMMA '','' # many_args j"

definition new_tokens :: "nat \<Rightarrow> int Token list" where
  "new_tokens j =
     tk NEW ''new'' # tk IDENTIFIER ''C'' # tk LEFT_PAREN ''('' # many_args j
       @ [tk RIGHT_PAREN '')'', tk SEMICOLON '';'', tk EOF '''']"

definition call_tokens :: "nat \<Rightarrow> int Token list" where
  "call_tokens j =
     tk IDENTIFIER ''C'' # tk LEFT_PAREN ''('' # many_args j
       @ [tk RIGHT_PAREN '')'', tk SEMICOLON '';'', tk EOF '''']"

text \<open>
  \<open>many_params j\<close> is \<open>j + 1\<close> parameter names \<^verbatim>\<open>a\<close> separated by commas, and
  \<open>fun_tokens j\<close> is \<^verbatim>\<open>fun f(a, ..., a) {}\<close> with these parameters.
\<close>

primrec many_params :: "nat \<Rightarrow> int Token list" where
  "many_params 0 = [tk IDENTIFIER ''a'']"
| "many_params (Suc j) = tk IDENTIFIER ''a'' # tk COMMA '','' # many_params j"

definition fun_tokens :: "nat \<Rightarrow> int Token list" where
  "fun_tokens j =
     tk FUN ''fun'' # tk IDENTIFIER ''f'' # tk LEFT_PAREN ''('' # many_params j
       @ [tk RIGHT_PAREN '')'', tk LEFT_BRACE ''{'', tk RIGHT_BRACE ''}'', tk EOF '''']"

text \<open>A parser for expressions reads the literal \<^verbatim>\<open>0\<close> before a comma or a closing parenthesis.\<close>

definition parses_literal :: "(int Token list \<Rightarrow> int eres) \<Rightarrow> bool" where
  "parses_literal E \<longleftrightarrow>
     (\<forall>t rest. ttype t = COMMA \<or> ttype t = RIGHT_PAREN \<longrightarrow>
        E (num0 # t # rest) = Inr (Literal (LitNum 0), t # rest))"

section \<open>Interpreter state and instances\<close>

record 'n Environment =
  enclosing :: "nat option"
  env_values :: "(string \<times> 'n oval) list"

record 'n OInstance =
  klass :: "'n OClass"
  obj_id :: int
  ifields :: "(string \<times> 'n oval) list"
  past :: "'n patch list"
  future :: "'n patch list"
  checkpoints :: "(string \<times> (string \<times> 'n oval) list) list"

text \<open>
  The attributes of \<^verbatim>\<open>Interpreter\<close> (\<^verbatim>\<open>globals\<close>, \<^verbatim>\<open>environment\<close>, \<^verbatim>\<open>_step\<close>, \<^verbatim>\<open>trace\<close>,
  \<^verbatim>\<open>_next_obj_id\<close>) and the heap they point into: the environments and the instances, by
  address, and the next free address. \<open>printed\<close> is what \<^verbatim>\<open>print\<close> has written, \<open>stdin\<close>
  the lines \<^verbatim>\<open>input\<close> will read, \<open>clock_values\<close> what the calls of \<^verbatim>\<open>time.time()\<close> will
  return, \<open>clock_reads\<close> how many of them were made.
\<close>

record 'n Interpreter =
  globals :: nat
  environment :: nat
  step :: int
  trace :: "jdata list"
  next_obj_id :: int
  envs :: "nat \<Rightarrow> 'n Environment option"
  objs :: "int \<Rightarrow> 'n OInstance option"
  next_addr :: nat
  printed :: "string list"
  stdin :: "string list"
  clock_values :: "nat \<Rightarrow> 'n"
  clock_reads :: nat

definition next_step :: "'n Interpreter \<Rightarrow> 'n Interpreter \<times> int" where
  "next_step interp = (interp\<lparr>step := step interp + 1\<rparr>, step interp + 1)"

definition record_event :: "jdata \<Rightarrow> 'n Interpreter \<Rightarrow> 'n Interpreter" where
  "record_event event interp = interp\<lparr>trace := trace interp @ [event]\<rparr>"

definition obj_label :: "'n OInstance \<Rightarrow> string" where
  "obj_label self = cls_name (klass self) @ ''#'' @ str_int (obj_id self)"

definition serialize_fields :: "'n pylib \<Rightarrow> 'n OInstance \<Rightarrow> jdata" where
  "serialize_fields L self = JDict (map (\<lambda>(k, v). (k, JStr (serialize_oval L v))) (ifields self))"

section \<open>The history engine\<close>

text \<open>
  Each method of \<^verbatim>\<open>OInstance\<close> takes the interpreter and the instance and returns both as
  the call leaves them, with the value returned or the exception raised: what a method
  did before it raised stays done.
\<close>

definition OInstance_set ::
  "'n pylib \<Rightarrow> 'n Token \<Rightarrow> 'n oval \<Rightarrow> 'n Interpreter \<times> 'n OInstance \<Rightarrow>
   ('n Interpreter \<times> 'n OInstance) \<times> ('n exc + unit)" where
  "OInstance_set L name_token v = (\<lambda>(interp, self).
     let field = lexeme name_token;
         old = (case map_of (ifields self) field of None \<Rightarrow> Undefined | Some x \<Rightarrow> Val x);
         (interp, st) = next_step interp;
         self = self\<lparr>past := past self @ [(field, old, Val v, st, line name_token)]\<rparr>;
         self = self\<lparr>future := []\<rparr>;
         self = self\<lparr>ifields := AList.update field v (ifields self)\<rparr>
     in case serialize_value L old of
          Inl e \<Rightarrow> ((interp, self), Inl e)
        | Inr s_old \<Rightarrow>
       (case serialize_value L (Val v) of
          Inl e \<Rightarrow> ((interp, self), Inl e)
        | Inr s_new \<Rightarrow>
            ((record_event (JDict
                [(''type'', JStr ''set''), (''step'', JInt st), (''line'', JInt (line name_token)),
                 (''object'', JStr (obj_label self)), (''field'', JStr field),
                 (''old'', JStr s_old), (''new'', JStr s_new),
                 (''fields_after'', serialize_fields L self)]) interp, self), Inr ())))"

definition OInstance_undo ::
  "'n pylib \<Rightarrow> int \<Rightarrow> 'n Interpreter \<times> 'n OInstance \<Rightarrow>
   ('n Interpreter \<times> 'n OInstance) \<times> ('n exc + 'n oval)" where
  "OInstance_undo L ln = (\<lambda>(interp, self).
     if past self = [] then ((interp, self), Inr VNone)
     else
       let (field, old, new, orig_step, orig_line) = last (past self);
           self = self\<lparr>past := butlast (past self)\<rparr>;
           (interp, st) = next_step interp;
           restored =
             (if field = ''__snapshot__'' then py_dict old
              else (case old of
                      Undefined \<Rightarrow> Inr (AList.delete field (ifields self))
                    | Val x \<Rightarrow> Inr (AList.update field x (ifields self))
                    | Snapshot d \<Rightarrow> Inl HostObjectAsField))
       in case restored of
            Inl e \<Rightarrow> ((interp, self), Inl e)
          | Inr fs \<Rightarrow>
         (let self = self\<lparr>ifields := fs\<rparr>;
              self = self\<lparr>future := future self @ [(field, old, new, orig_step, orig_line)]\<rparr>
          in case serialize_value L new of
               Inl e \<Rightarrow> ((interp, self), Inl e)
             | Inr s_new \<Rightarrow>
            (case serialize_value L old of
               Inl e \<Rightarrow> ((interp, self), Inl e)
             | Inr s_old \<Rightarrow>
                 ((record_event (JDict
                     [(''type'', JStr ''undo''), (''step'', JInt st), (''line'', JInt ln),
                      (''object'', JStr (obj_label self)), (''field'', JStr field),
                      (''old'', JStr s_new), (''new'', JStr s_old),
                      (''fields_after'', serialize_fields L self),
                      (''rewinds_step'', JInt orig_step)]) interp, self), Inr VNone))))"

definition OInstance_redo ::
  "'n pylib \<Rightarrow> int \<Rightarrow> 'n Interpreter \<times> 'n OInstance \<Rightarrow>
   ('n Interpreter \<times> 'n OInstance) \<times> ('n exc + 'n oval)" where
  "OInstance_redo L ln = (\<lambda>(interp, self).
     if future self = [] then ((interp, self), Inr VNone)
     else
       let (field, old, new, orig_step, orig_line) = last (future self);
           self = self\<lparr>future := butlast (future self)\<rparr>;
           (interp, st) = next_step interp;
           reapplied =
             (if field = ''__snapshot__'' then py_dict new
              else (case new of
                      Val x \<Rightarrow> Inr (AList.update field x (ifields self))
                    | _ \<Rightarrow> Inl HostObjectAsField))
       in case reapplied of
            Inl e \<Rightarrow> ((interp, self), Inl e)
          | Inr fs \<Rightarrow>
         (let self = self\<lparr>ifields := fs\<rparr>;
              self = self\<lparr>past := past self @ [(field, old, new, orig_step, orig_line)]\<rparr>
          in case serialize_value L old of
               Inl e \<Rightarrow> ((interp, self), Inl e)
             | Inr s_old \<Rightarrow>
            (case serialize_value L new of
               Inl e \<Rightarrow> ((interp, self), Inl e)
             | Inr s_new \<Rightarrow>
                 ((record_event (JDict
                     [(''type'', JStr ''redo''), (''step'', JInt st), (''line'', JInt ln),
                      (''object'', JStr (obj_label self)), (''field'', JStr field),
                      (''old'', JStr s_old), (''new'', JStr s_new),
                      (''fields_after'', serialize_fields L self),
                      (''reapplies_step'', JInt orig_step)]) interp, self), Inr VNone))))"

fun history_entries :: "'n pylib \<Rightarrow> 'n patch list \<Rightarrow> 'n exc + jdata list" where
  "history_entries L [] = Inr []"
| "history_entries L ((field, old, new, st, ln) # ps) =
     (case serialize_value L old of
        Inl e \<Rightarrow> Inl e
      | Inr s_old \<Rightarrow>
     (case serialize_value L new of
        Inl e \<Rightarrow> Inl e
      | Inr s_new \<Rightarrow>
     (case history_entries L ps of
        Inl e \<Rightarrow> Inl e
      | Inr hist \<Rightarrow>
          Inr (JDict [(''step'', JInt st), (''line'', JInt ln), (''field'', JStr field),
                      (''old'', JStr s_old), (''new'', JStr s_new)] # hist))))"

definition OInstance_history ::
  "'n pylib \<Rightarrow> 'n Interpreter \<times> 'n OInstance \<Rightarrow>
   ('n Interpreter \<times> 'n OInstance) \<times> ('n exc + 'n oval)" where
  "OInstance_history L = (\<lambda>(interp, self).
     case history_entries L (past self) of
       Inl e \<Rightarrow> ((interp, self), Inl e)
     | Inr hist \<Rightarrow> ((interp, self), Inr (VList hist)))"

definition OInstance_checkpoint ::
  "'n pylib \<Rightarrow> 'n oval \<Rightarrow> int \<Rightarrow> 'n Interpreter \<times> 'n OInstance \<Rightarrow>
   ('n Interpreter \<times> 'n OInstance) \<times> ('n exc + 'n oval)" where
  "OInstance_checkpoint L label ln = (\<lambda>(interp, self).
     let name = (case label of VStr s \<Rightarrow> s | _ \<Rightarrow> serialize_oval L label);
         self = self\<lparr>checkpoints := AList.update name (ifields self) (checkpoints self)\<rparr>;
         (interp, st) = next_step interp
     in ((record_event (JDict
            [(''type'', JStr ''checkpoint''), (''step'', JInt st), (''line'', JInt ln),
             (''object'', JStr (obj_label self)), (''name'', JStr name),
             (''fields_after'', serialize_fields L self)]) interp, self), Inr VNone))"

definition OInstance_rollback ::
  "'n pylib \<Rightarrow> 'n oval \<Rightarrow> int \<Rightarrow> 'n Interpreter \<times> 'n OInstance \<Rightarrow>
   ('n Interpreter \<times> 'n OInstance) \<times> ('n exc + 'n oval)" where
  "OInstance_rollback L label ln = (\<lambda>(interp, self).
     let name = (case label of VStr s \<Rightarrow> s | _ \<Rightarrow> serialize_oval L label)
     in case map_of (checkpoints self) name of
          None \<Rightarrow>
            ((interp, self),
             Inl (RuntimeError (Token IDENTIFIER ''rollback'' LitNone ln)
                    (''No checkpoint named '' @ [CHR 0x27] @ name @ [CHR 0x27] @ ''.'')))
        | Some stored \<Rightarrow>
            (let old_snapshot = ifields self;
                 new_snapshot = stored;
                 (interp, st) = next_step interp;
                 self = self\<lparr>past := past self @
                          [(''__snapshot__'', Snapshot old_snapshot, Snapshot new_snapshot, st, ln)]\<rparr>;
                 self = self\<lparr>future := []\<rparr>;
                 self = self\<lparr>ifields := new_snapshot\<rparr>
             in ((record_event (JDict
                    [(''type'', JStr ''rollback''), (''step'', JInt st), (''line'', JInt ln),
                     (''object'', JStr (obj_label self)), (''name'', JStr name),
                     (''fields_after'', serialize_fields L self)]) interp, self), Inr VNone)))"

section \<open>Environments, binding and property lookup\<close>

definition fresh_addr :: "'n Interpreter \<Rightarrow> 'n Interpreter \<times> nat" where
  "fresh_addr interp = (interp\<lparr>next_addr := next_addr interp + 1\<rparr>, next_addr interp)"

text \<open>\<^verbatim>\<open>Environment(enclosing)\<close>: a new environment with no bindings.\<close>

definition new_Environment :: "nat option \<Rightarrow> 'n Interpreter \<Rightarrow> 'n Interpreter \<times> nat" where
  "new_Environment encl interp =
     (let (interp, a) = fresh_addr interp
      in (interp\<lparr>envs := (envs interp)(a \<mapsto> \<lparr>enclosing = encl, env_values = []\<rparr>)\<rparr>, a))"

definition Environment_define :: "nat \<Rightarrow> string \<Rightarrow> 'n oval \<Rightarrow> 'n Interpreter \<Rightarrow> 'n Interpreter" where
  "Environment_define a name v interp =
     (case envs interp a of
        None \<Rightarrow> interp
      | Some e \<Rightarrow>
          interp\<lparr>envs := (envs interp)(a \<mapsto> e\<lparr>env_values := AList.update name v (env_values e)\<rparr>)\<rparr>)"

definition OFunction_bind ::
  "'n OFunction \<Rightarrow> 'n oval \<Rightarrow> 'n Interpreter \<Rightarrow> 'n Interpreter \<times> 'n OFunction" where
  "OFunction_bind f inst interp =
     (let (interp, env) = new_Environment (Some (closure f)) interp;
          interp = Environment_define env ''this'' inst interp;
          (interp, a) = fresh_addr interp
      in (interp, OFunction a (fdecl f) env (is_initializer f)))"

definition find_method :: "'n OClass \<Rightarrow> string \<Rightarrow> 'n OFunction option" where
  "find_method k name = map_of (methods k) name"

definition new_NativeFunction ::
  "string \<Rightarrow> int \<Rightarrow> native_func \<Rightarrow> 'n Interpreter \<Rightarrow> 'n Interpreter \<times> 'n oval" where
  "new_NativeFunction name ar func interp =
     (let (interp, a) = fresh_addr interp in (interp, VNative (NativeFunction a name ar func)))"

text \<open>
  \<^verbatim>\<open>OInstance.get\<close>: the field map, then the class's methods, then the built-ins. It does
  not change the instance.
\<close>

definition OInstance_get ::
  "'n Token \<Rightarrow> 'n Interpreter \<Rightarrow> 'n OInstance \<Rightarrow> 'n Interpreter \<times> ('n exc + 'n oval)" where
  "OInstance_get name_token interp self =
     (let name = lexeme name_token
      in case map_of (ifields self) name of
           Some v \<Rightarrow> (interp, Inr v)
         | None \<Rightarrow>
        (case find_method (klass self) name of
           Some m \<Rightarrow>
             (let (interp, f) = OFunction_bind m (VInstance (obj_id self) (klass self)) interp
              in (interp, Inr (VFunction f)))
         | None \<Rightarrow>
             (let native = (\<lambda>ar func.
                    let (interp, nf) =
                          new_NativeFunction (cls_name (klass self) @ ''.'' @ name) ar func interp
                    in (interp, Inr nf))
              in if name = ''undo'' then native 0 (N_undo (obj_id self) (line name_token))
                 else if name = ''redo'' then native 0 (N_redo (obj_id self) (line name_token))
                 else if name = ''history'' then native 0 (N_history (obj_id self))
                 else if name = ''id'' then native 0 (N_id (obj_id self))
                 else if name = ''checkpoint'' then
                   native 1 (N_checkpoint (obj_id self) (line name_token))
                 else if name = ''rollback'' then
                   native 1 (N_rollback (obj_id self) (line name_token))
                 else if name = ''checkpoints'' then native 0 (N_checkpoints (obj_id self))
                 else (interp, Inl (RuntimeError name_token
                         (''Undefined property '' @ [CHR 0x27] @ name @ [CHR 0x27] @ ''.''))))))"

section \<open>Operators\<close>

definition is_truthy :: "'n oval \<Rightarrow> bool" where
  "is_truthy v = (case v of VNone \<Rightarrow> False | VBool b \<Rightarrow> b | _ \<Rightarrow> True)"

text \<open>
  \<^verbatim>\<open>isinstance(v, (int, float))\<close> holds of a number and, since Python's \<^verbatim>\<open>bool\<close> is a
  subclass of \<^verbatim>\<open>int\<close>, of a boolean; \<open>as_number\<close> is the number Python's arithmetic then
  works with.
\<close>

definition as_number :: "'n pylib \<Rightarrow> 'n oval \<Rightarrow> 'n option" where
  "as_number L v = (case v of VNum x \<Rightarrow> Some x | VBool b \<Rightarrow> Some (n_of_bool L b) | _ \<Rightarrow> None)"

definition check_number_operand :: "'n pylib \<Rightarrow> 'n Token \<Rightarrow> 'n oval \<Rightarrow> 'n exc + 'n" where
  "check_number_operand L operator operand =
     (case as_number L operand of
        Some a \<Rightarrow> Inr a
      | None \<Rightarrow> Inl (RuntimeError operator ''Operand must be a number.''))"

definition check_number_operands ::
  "'n pylib \<Rightarrow> 'n Token \<Rightarrow> 'n oval \<Rightarrow> 'n oval \<Rightarrow> 'n exc + 'n \<times> 'n" where
  "check_number_operands L operator left right =
     (case (as_number L left, as_number L right) of
        (Some a, Some b) \<Rightarrow> Inr (a, b)
      | _ \<Rightarrow> Inl (RuntimeError operator ''Operands must be numbers.''))"

text \<open>
  \<^verbatim>\<open>is_equal\<close> is Python's \<^verbatim>\<open>==\<close>: numbers and booleans compare as numbers, strings and
  lists by content, functions, natives, classes and instances by identity. (The dicts in
  the lists natives return are built with their keys in one order, so equal dicts are
  equal association lists.)
\<close>

definition is_equal :: "'n pylib \<Rightarrow> 'n oval \<Rightarrow> 'n oval \<Rightarrow> bool" where
  "is_equal L a b =
     (case (as_number L a, as_number L b) of
        (Some x, Some y) \<Rightarrow> n_eq L x y
      | (Some x, None) \<Rightarrow> False
      | (None, Some y) \<Rightarrow> False
      | (None, None) \<Rightarrow>
          (case (a, b) of
             (VNone, VNone) \<Rightarrow> True
           | (VStr s, VStr t) \<Rightarrow> s = t
           | (VList xs, VList ys) \<Rightarrow> xs = ys
           | (VFunction f, VFunction g) \<Rightarrow> fn_addr f = fn_addr g
           | (VNative f, VNative g) \<Rightarrow> nf_addr f = nf_addr g
           | (VClass k, VClass l) \<Rightarrow> cls_addr k = cls_addr l
           | (VInstance i k, VInstance j l) \<Rightarrow> i = j
           | _ \<Rightarrow> False))"

text \<open>The \<^verbatim>\<open>Unary\<close> branch of \<^verbatim>\<open>evaluate\<close>, from the value of the operand on.\<close>

definition unary_op :: "'n pylib \<Rightarrow> 'n Token \<Rightarrow> 'n oval \<Rightarrow> 'n exc + 'n oval" where
  "unary_op L operator right =
     (if ttype operator = MINUS then
        (case check_number_operand L operator right of
           Inl e \<Rightarrow> Inl e
         | Inr a \<Rightarrow> Inr (VNum (n_neg L a)))
      else if ttype operator = BANG then Inr (VBool (\<not> is_truthy right))
      else Inl (PyException ''Unknown expression type''))"

text \<open>The \<^verbatim>\<open>Binary\<close> branch of \<^verbatim>\<open>evaluate\<close>, from the values of the two operands on.\<close>

definition binary_op :: "'n pylib \<Rightarrow> 'n Token \<Rightarrow> 'n oval \<Rightarrow> 'n oval \<Rightarrow> 'n exc + 'n oval" where
  "binary_op L operator left right =
     (let t = ttype operator;
          numeric = (\<lambda>f. case check_number_operands L operator left right of
                            Inl e \<Rightarrow> Inl e
                          | Inr (a, b) \<Rightarrow> f a b)
      in if t = PLUS then
           (case (as_number L left, as_number L right) of
              (Some a, Some b) \<Rightarrow> Inr (VNum (n_add L a b))
            | _ \<Rightarrow>
               (case (left, right) of
                  (VStr a, VStr b) \<Rightarrow> Inr (VStr (a @ b))
                | _ \<Rightarrow> Inl (RuntimeError operator ''Operands must be two numbers or two strings.'')))
         else if t = MINUS then numeric (\<lambda>a b. Inr (VNum (n_sub L a b)))
         else if t = STAR then numeric (\<lambda>a b. Inr (VNum (n_mul L a b)))
         else if t = SLASH then
           numeric (\<lambda>a b. if n_eq L b (n_of_int L 0)
                           then Inl (RuntimeError operator ''Division by zero.'')
                           else Inr (VNum (n_truediv L a b)))
         else if t = GREATER then numeric (\<lambda>a b. Inr (VBool (n_gt L a b)))
         else if t = GREATER_EQUAL then numeric (\<lambda>a b. Inr (VBool (n_ge L a b)))
         else if t = LESS then numeric (\<lambda>a b. Inr (VBool (n_lt L a b)))
         else if t = LESS_EQUAL then numeric (\<lambda>a b. Inr (VBool (n_le L a b)))
         else if t = EQUAL_EQUAL then Inr (VBool (is_equal L left right))
         else if t = BANG_EQUAL then Inr (VBool (\<not> is_equal L left right))
         else Inl (PyException ''Unknown expression type''))"

section \<open>Initial states\<close>

text \<open>\<^verbatim>\<open>OInstance.__init__\<close>.\<close>

definition OInstance_init :: "'n OClass \<Rightarrow> int \<Rightarrow> 'n OInstance" where
  "OInstance_init k i =
     \<lparr>klass = k, obj_id = i, ifields = [], past = [], future = [], checkpoints = []\<rparr>"

text \<open>
  \<^verbatim>\<open>Interpreter.__init__\<close>, given what the terminal and the clock will supply: the global
  environment is allocated first, then the six natives in the order they are defined.
\<close>

definition Interpreter_init :: "string list \<Rightarrow> (nat \<Rightarrow> 'n) \<Rightarrow> 'n Interpreter" where
  "Interpreter_init inp clk =
     \<lparr>globals = 0, environment = 0, step = 0, trace = [], next_obj_id = 1,
      envs = Map.empty(0 \<mapsto> \<lparr>enclosing = None, env_values =
        [(''clock'', VNative (NativeFunction 1 ''clock'' 0 N_clock)),
         (''str'', VNative (NativeFunction 2 ''str'' 1 N_str)),
         (''type'', VNative (NativeFunction 3 ''type'' 1 N_type)),
         (''len'', VNative (NativeFunction 4 ''len'' 1 N_len)),
         (''input'', VNative (NativeFunction 5 ''input'' (- 1) N_input)),
         (''assert'', VNative (NativeFunction 6 ''assert'' (- 1) N_assert))]\<rparr>),
      objs = Map.empty, next_addr = 7, printed = [], stdin = inp, clock_values = clk,
      clock_reads = 0\<rparr>"

text \<open>\<^verbatim>\<open>Interpreter.make_instance\<close>; the new object is put on the heap and returned.\<close>

definition make_instance :: "'n OClass \<Rightarrow> 'n Interpreter \<Rightarrow> 'n Interpreter \<times> 'n OInstance" where
  "make_instance k interp =
     (let obj = OInstance_init k (next_obj_id interp);
          interp = interp\<lparr>objs := (objs interp)(obj_id obj \<mapsto> obj)\<rparr>;
          interp = interp\<lparr>next_obj_id := next_obj_id interp + 1\<rparr>;
          (interp, st) = next_step interp
      in (record_event (JDict
            [(''type'', JStr ''new''), (''step'', JInt st), (''line'', JNull),
             (''object'', JStr (cls_name k @ ''#'' @ str_int (obj_id obj))),
             (''fields_after'', JDict [])]) interp, obj))"

section \<open>The evaluator\<close>

text \<open>
  Every method of the evaluator takes the interpreter and returns it as the call leaves
  it, with the value returned or the exception raised.
\<close>

type_synonym 'n res = "'n Interpreter \<times> ('n exc + 'n oval)"

definition rbind ::
  "'n Interpreter \<times> ('e + 'a) \<Rightarrow> ('a \<Rightarrow> 'n Interpreter \<Rightarrow> 'n Interpreter \<times> ('e + 'b)) \<Rightarrow>
   'n Interpreter \<times> ('e + 'b)" where
  "rbind m f = (case m of (interp, Inl e) \<Rightarrow> (interp, Inl e) | (interp, Inr a) \<Rightarrow> f a interp)"

text \<open>
  \<^verbatim>\<open>Environment.get\<close> and \<^verbatim>\<open>Environment.assign\<close> walk the chain of enclosing
  environments. An environment is allocated after the one it encloses, so the chain from
  address \<open>a\<close> has at most \<open>a + 1\<close> members; the walk is bounded by that.
\<close>

primrec Environment_get_rec ::
  "nat \<Rightarrow> (nat \<Rightarrow> 'n Environment option) \<Rightarrow> nat \<Rightarrow> 'n Token \<Rightarrow> 'n exc + 'n oval" where
  "Environment_get_rec 0 es a name_token = Inl OutOfFuel"
| "Environment_get_rec (Suc k) es a name_token =
     (case es a of
        None \<Rightarrow> Inl DanglingReference
      | Some e \<Rightarrow>
          (case map_of (env_values e) (lexeme name_token) of
             Some v \<Rightarrow> Inr v
           | None \<Rightarrow>
               (case enclosing e of
                  Some p \<Rightarrow> Environment_get_rec k es p name_token
                | None \<Rightarrow>
                    Inl (RuntimeError name_token
                          (''Undefined variable '' @ [CHR 0x27] @ lexeme name_token @ [CHR 0x27]
                           @ ''.'')))))"

definition Environment_get :: "nat \<Rightarrow> 'n Token \<Rightarrow> 'n Interpreter \<Rightarrow> 'n exc + 'n oval" where
  "Environment_get a name_token interp = Environment_get_rec (Suc a) (envs interp) a name_token"

primrec Environment_assign_rec ::
  "nat \<Rightarrow> nat \<Rightarrow> 'n Token \<Rightarrow> 'n oval \<Rightarrow> 'n Interpreter \<Rightarrow> 'n Interpreter \<times> ('n exc + unit)" where
  "Environment_assign_rec 0 a name_token v interp = (interp, Inl OutOfFuel)"
| "Environment_assign_rec (Suc k) a name_token v interp =
     (case envs interp a of
        None \<Rightarrow> (interp, Inl DanglingReference)
      | Some e \<Rightarrow>
          (case map_of (env_values e) (lexeme name_token) of
             Some old \<Rightarrow> (Environment_define a (lexeme name_token) v interp, Inr ())
           | None \<Rightarrow>
               (case enclosing e of
                  Some p \<Rightarrow> Environment_assign_rec k p name_token v interp
                | None \<Rightarrow>
                    (interp, Inl (RuntimeError name_token
                          (''Undefined variable '' @ [CHR 0x27] @ lexeme name_token @ [CHR 0x27]
                           @ ''.''))))))"

definition Environment_assign ::
  "nat \<Rightarrow> 'n Token \<Rightarrow> 'n oval \<Rightarrow> 'n Interpreter \<Rightarrow> 'n Interpreter \<times> ('n exc + unit)" where
  "Environment_assign a name_token v interp = Environment_assign_rec (Suc a) a name_token v interp"

subsection \<open>Natives\<close>

definition type_of :: "'n oval \<Rightarrow> string" where
  "type_of v =
     (case v of
        VNone \<Rightarrow> ''nil''
      | VBool b \<Rightarrow> ''bool''
      | VNum x \<Rightarrow> ''number''
      | VStr s \<Rightarrow> ''string''
      | VInstance i k \<Rightarrow> ''instance('' @ cls_name k @ '')''
      | VClass k \<Rightarrow> ''class('' @ cls_name k @ '')''
      | VFunction f \<Rightarrow> ''function''
      | VNative nf \<Rightarrow> ''native_function''
      | VList xs \<Rightarrow> ''list'')"

definition native_len :: "'n pylib \<Rightarrow> 'n oval \<Rightarrow> 'n exc + 'n oval" where
  "native_len L v =
     (case v of
        VStr s \<Rightarrow> Inr (VNum (n_of_int L (int (length s))))
      | VList xs \<Rightarrow> Inr (VNum (n_of_int L (int (length xs))))
      | _ \<Rightarrow> Inl (RuntimeError (Token IDENTIFIER ''len'' LitNone 0)
                    ''len(x) only works on strings, lists, and dicts.''))"

text \<open>Python's \<^verbatim>\<open>str(v)\<close>, which \<^verbatim>\<open>native_input\<close> and \<^verbatim>\<open>native_assert\<close> apply to a value.\<close>

definition py_str :: "'n pylib \<Rightarrow> 'n oval \<Rightarrow> string" where
  "py_str L v =
     (case v of
        VNone \<Rightarrow> ''None''
      | VBool b \<Rightarrow> (if b then ''True'' else ''False'')
      | VNum x \<Rightarrow> n_str L x
      | VStr s \<Rightarrow> s
      | VInstance i k \<Rightarrow> ''<'' @ cls_name k @ ''#'' @ str_int i @ ''>''
      | VClass k \<Rightarrow> ''<class '' @ cls_name k @ ''>''
      | VFunction f \<Rightarrow> ''<fn '' @ lexeme (fname (fdecl f)) @ ''>''
      | VNative nf \<Rightarrow> ''<native fn '' @ nf_name nf @ ''>''
      | VList xs \<Rightarrow> py_repr_list L xs)"

text \<open>
  \<^verbatim>\<open>native_input\<close>: the prompt is written to the terminal and a line is read;
  \<^verbatim>\<open>input\<close> raises \<^verbatim>\<open>EOFError\<close> when there is none.
\<close>

definition native_input :: "'n pylib \<Rightarrow> 'n oval list \<Rightarrow> 'n Interpreter \<Rightarrow> 'n res" where
  "native_input L args interp =
     (let read = (\<lambda>prompt.
            let interp = interp\<lparr>printed := printed interp @ [prompt]\<rparr>
            in case stdin interp of
                 [] \<Rightarrow> (interp, Inl EOFError)
               | l # ls \<Rightarrow> (interp\<lparr>stdin := ls\<rparr>, Inr (VStr l)))
      in case args of
           [] \<Rightarrow> read ''''
         | [a] \<Rightarrow> read (py_str L a)
         | _ \<Rightarrow> (interp, Inl (RuntimeError (Token IDENTIFIER ''input'' LitNone 0)
                            ''input() takes 0 or 1 argument.'')))"

definition native_assert :: "'n pylib \<Rightarrow> 'n oval list \<Rightarrow> 'n exc + 'n oval" where
  "native_assert L args =
     (if length args = 0 \<or> length args > 2 then
        Inl (RuntimeError (Token IDENTIFIER ''assert'' LitNone 0)
               ''assert(condition[, message]) takes 1 or 2 arguments.'')
      else
        (let cond = hd args;
             msg = (if length args = 2 then py_str L (args ! 1) else ''Assertion failed.'')
         in if \<not> is_truthy cond then Inl (RuntimeError (Token IDENTIFIER ''assert'' LitNone 0) msg)
            else Inr VNone))"

text \<open>
  A method of the instance with identity \<open>i\<close>, run on the heap: the instance is read from
  the heap and written back as the method leaves it.
\<close>

definition on_instance ::
  "int \<Rightarrow> ('n Interpreter \<times> 'n OInstance \<Rightarrow> ('n Interpreter \<times> 'n OInstance) \<times> ('n exc + 'a)) \<Rightarrow>
   'n Interpreter \<Rightarrow> 'n Interpreter \<times> ('n exc + 'a)" where
  "on_instance i m interp =
     (case objs interp i of
        None \<Rightarrow> (interp, Inl DanglingReference)
      | Some self \<Rightarrow>
          (let ((interp, self), r) = m (interp, self)
           in (interp\<lparr>objs := (objs interp)(i \<mapsto> self)\<rparr>, r)))"

text \<open>
  \<^verbatim>\<open>NativeFunction.call\<close>: the wrapped lambda applied to the interpreter and the
  arguments. A lambda applied to the wrong number of arguments is Python's
  \<^verbatim>\<open>TypeError\<close>.
\<close>

definition NativeFunction_call ::
  "'n pylib \<Rightarrow> NativeFunction \<Rightarrow> 'n oval list \<Rightarrow> 'n Interpreter \<Rightarrow> 'n res" where
  "NativeFunction_call L nf args interp =
     (let bad = (interp, Inl (TypeError ''wrong number of arguments''))
      in case nf_func nf of
           N_clock \<Rightarrow>
             (case args of
                [] \<Rightarrow> (interp\<lparr>clock_reads := clock_reads interp + 1\<rparr>,
                       Inr (VNum (clock_values interp (clock_reads interp))))
              | _ \<Rightarrow> bad)
         | N_str \<Rightarrow> (case args of [v] \<Rightarrow> (interp, Inr (VStr (serialize_oval L v))) | _ \<Rightarrow> bad)
         | N_type \<Rightarrow> (case args of [v] \<Rightarrow> (interp, Inr (VStr (type_of v))) | _ \<Rightarrow> bad)
         | N_len \<Rightarrow> (case args of [v] \<Rightarrow> (interp, native_len L v) | _ \<Rightarrow> bad)
         | N_input \<Rightarrow> native_input L args interp
         | N_assert \<Rightarrow> (interp, native_assert L args)
         | N_undo i ln \<Rightarrow>
             (case args of [] \<Rightarrow> on_instance i (OInstance_undo L ln) interp | _ \<Rightarrow> bad)
         | N_redo i ln \<Rightarrow>
             (case args of [] \<Rightarrow> on_instance i (OInstance_redo L ln) interp | _ \<Rightarrow> bad)
         | N_history i \<Rightarrow>
             (case args of [] \<Rightarrow> on_instance i (OInstance_history L) interp | _ \<Rightarrow> bad)
         | N_id i \<Rightarrow> (case args of [] \<Rightarrow> (interp, Inr (VNum (n_of_int L i))) | _ \<Rightarrow> bad)
         | N_checkpoint i ln \<Rightarrow>
             (case args of
                [label] \<Rightarrow> on_instance i (OInstance_checkpoint L label ln) interp
              | _ \<Rightarrow> bad)
         | N_rollback i ln \<Rightarrow>
             (case args of
                [label] \<Rightarrow> on_instance i (OInstance_rollback L label ln) interp
              | _ \<Rightarrow> bad)
         | N_checkpoints i \<Rightarrow>
             (case args of
                [] \<Rightarrow>
                  (case objs interp i of
                     None \<Rightarrow> (interp, Inl DanglingReference)
                   | Some self \<Rightarrow> (interp, Inr (VList (map (\<lambda>(k, d). JStr k) (checkpoints self)))))
              | _ \<Rightarrow> bad))"

subsection \<open>Statements, functions and classes\<close>

text \<open>
  \<^verbatim>\<open>evaluate\<close> and \<^verbatim>\<open>execute\<close> call themselves and each other, on parts of the tree
  and, through calls, on the bodies of functions: these calls are the parameter \<open>self\<close>,
  and \<open>eval_rec\<close> closes the recursion over the depth still allowed, with \<open>OutOfFuel\<close>
  where it runs out.
\<close>

datatype 'n task = T_evaluate "'n Expr" | T_execute "'n Stmt"

primrec evaluate_list ::
  "('n task \<Rightarrow> 'n Interpreter \<Rightarrow> 'n res) \<Rightarrow> 'n Expr list \<Rightarrow> 'n Interpreter \<Rightarrow>
   'n Interpreter \<times> ('n exc + 'n oval list)" where
  "evaluate_list self [] interp = (interp, Inr [])"
| "evaluate_list self (a # as) interp =
     rbind (self (T_evaluate a) interp) (\<lambda>v interp.
     rbind (evaluate_list self as interp) (\<lambda>vs interp. (interp, Inr (v # vs))))"

primrec execute_statements ::
  "('n task \<Rightarrow> 'n Interpreter \<Rightarrow> 'n res) \<Rightarrow> 'n Stmt list \<Rightarrow> 'n Interpreter \<Rightarrow> 'n res" where
  "execute_statements self [] interp = (interp, Inr VNone)"
| "execute_statements self (s # ss) interp =
     rbind (self (T_execute s) interp) (\<lambda>v interp. execute_statements self ss interp)"

text \<open>\<^verbatim>\<open>execute_block\<close>: the \<^verbatim>\<open>finally\<close> clause restores the environment on every exit.\<close>

definition execute_block ::
  "('n task \<Rightarrow> 'n Interpreter \<Rightarrow> 'n res) \<Rightarrow> 'n Stmt list \<Rightarrow> nat \<Rightarrow> 'n Interpreter \<Rightarrow> 'n res" where
  "execute_block self statements env interp =
     (let previous = environment interp;
          (interp, r) = execute_statements self statements (interp\<lparr>environment := env\<rparr>)
      in (interp\<lparr>environment := previous\<rparr>, r))"

definition OFunction_arity :: "'n OFunction \<Rightarrow> int" where
  "OFunction_arity f = int (length (params (fdecl f)))"

text \<open>\<^verbatim>\<open>self.closure.values.get("this")\<close>.\<close>

definition closure_this :: "'n OFunction \<Rightarrow> 'n Interpreter \<Rightarrow> 'n oval" where
  "closure_this f interp =
     (case envs interp (closure f) of
        None \<Rightarrow> VNone
      | Some e \<Rightarrow> (case map_of (env_values e) ''this'' of None \<Rightarrow> VNone | Some v \<Rightarrow> v))"

definition OFunction_call ::
  "('n task \<Rightarrow> 'n Interpreter \<Rightarrow> 'n res) \<Rightarrow> 'n OFunction \<Rightarrow> 'n oval list \<Rightarrow> 'n Interpreter \<Rightarrow> 'n res" where
  "OFunction_call self f arguments interp =
     (let (interp, env) = new_Environment (Some (closure f)) interp;
          interp = fold (\<lambda>(param, arg). Environment_define env (lexeme param) arg)
                     (zip (params (fdecl f)) arguments) interp;
          (interp, r) = execute_block self (body (fdecl f)) env interp
      in case r of
           Inl (ReturnException v) \<Rightarrow>
             (interp, Inr (if is_initializer f then closure_this f interp else v))
         | Inl e \<Rightarrow> (interp, Inl e)
         | Inr v \<Rightarrow> (interp, Inr (if is_initializer f then closure_this f interp else VNone)))"

definition OClass_arity :: "'n OClass \<Rightarrow> int" where
  "OClass_arity k = (case find_method k ''init'' of Some init \<Rightarrow> OFunction_arity init | None \<Rightarrow> 0)"

definition OClass_call ::
  "('n task \<Rightarrow> 'n Interpreter \<Rightarrow> 'n res) \<Rightarrow> 'n OClass \<Rightarrow> 'n oval list \<Rightarrow> 'n Interpreter \<Rightarrow> 'n res" where
  "OClass_call self k arguments interp =
     (let (interp, obj) = make_instance k interp;
          instance = VInstance (obj_id obj) k
      in case find_method k ''init'' of
           Some init \<Rightarrow>
             (let (interp, bound) = OFunction_bind init instance interp
              in rbind (OFunction_call self bound arguments interp) (\<lambda>v interp.
                   (interp, Inr instance)))
         | None \<Rightarrow> (interp, Inr instance))"

text \<open>
  \<^verbatim>\<open>getattr(callee, "arity", lambda: -1)()\<close> and \<^verbatim>\<open>callee.call(self, args)\<close>, for the
  values that have a \<^verbatim>\<open>call\<close> attribute: functions, natives and classes.
\<close>

definition callable_arity :: "'n oval \<Rightarrow> int option" where
  "callable_arity callee =
     (case callee of
        VFunction f \<Rightarrow> Some (OFunction_arity f)
      | VNative nf \<Rightarrow> Some (nf_arity nf)
      | VClass k \<Rightarrow> Some (OClass_arity k)
      | _ \<Rightarrow> None)"

definition callable_call ::
  "'n pylib \<Rightarrow> ('n task \<Rightarrow> 'n Interpreter \<Rightarrow> 'n res) \<Rightarrow> 'n oval \<Rightarrow> 'n oval list \<Rightarrow>
   'n Interpreter \<Rightarrow> 'n res" where
  "callable_call L self callee arguments interp =
     (case callee of
        VFunction f \<Rightarrow> OFunction_call self f arguments interp
      | VNative nf \<Rightarrow> NativeFunction_call L nf arguments interp
      | VClass k \<Rightarrow> OClass_call self k arguments interp
      | _ \<Rightarrow> (interp, Inl (TypeError ''object has no attribute call'')))"

definition literal_value :: "'n pylit \<Rightarrow> 'n oval" where
  "literal_value l =
     (case l of LitNone \<Rightarrow> VNone | LitBool b \<Rightarrow> VBool b | LitNum x \<Rightarrow> VNum x | LitStr s \<Rightarrow> VStr s)"

subsection \<open>Expressions and statements\<close>

definition evaluate ::
  "'n pylib \<Rightarrow> ('n task \<Rightarrow> 'n Interpreter \<Rightarrow> 'n res) \<Rightarrow> 'n Expr \<Rightarrow> 'n Interpreter \<Rightarrow> 'n res" where
  "evaluate L self expr interp =
     (case expr of
        Literal l \<Rightarrow> (interp, Inr (literal_value l))
      | Grouping e \<Rightarrow> self (T_evaluate e) interp
      | Unary operator right \<Rightarrow>
          rbind (self (T_evaluate right) interp) (\<lambda>r interp. (interp, unary_op L operator r))
      | Binary left operator right \<Rightarrow>
          rbind (self (T_evaluate left) interp) (\<lambda>l interp.
          rbind (self (T_evaluate right) interp) (\<lambda>r interp.
            (interp, binary_op L operator l r)))
      | Variable name \<Rightarrow> (interp, Environment_get (environment interp) name interp)
      | Assign name e \<Rightarrow>
          rbind (self (T_evaluate e) interp) (\<lambda>v interp.
          rbind (Environment_assign (environment interp) name v interp) (\<lambda>u interp.
            (interp, Inr v)))
      | Logical left operator right \<Rightarrow>
          rbind (self (T_evaluate left) interp) (\<lambda>l interp.
            if ttype operator = OR then
              (if is_truthy l then (interp, Inr l) else self (T_evaluate right) interp)
            else
              (if \<not> is_truthy l then (interp, Inr l) else self (T_evaluate right) interp))
      | Call callee paren arguments \<Rightarrow>
          rbind (self (T_evaluate callee) interp) (\<lambda>c interp.
          rbind (evaluate_list self arguments interp) (\<lambda>args interp.
            case callable_arity c of
              None \<Rightarrow> (interp, Inl (RuntimeError paren ''Can only call functions and classes.''))
            | Some ar \<Rightarrow>
                if ar \<noteq> - 1 \<and> int (length args) \<noteq> ar then
                  (interp, Inl (RuntimeError paren
                     (''Expected '' @ str_int ar @ '' arguments but got ''
                      @ str_int (int (length args)) @ ''.'')))
                else callable_call L self c args interp))
      | Get obj name \<Rightarrow>
          rbind (self (T_evaluate obj) interp) (\<lambda>ob interp.
            case ob of
              VInstance i k \<Rightarrow>
                (case objs interp i of
                   None \<Rightarrow> (interp, Inl DanglingReference)
                 | Some inst \<Rightarrow> OInstance_get name interp inst)
            | _ \<Rightarrow> (interp, Inl (RuntimeError name ''Only instances have properties.'')))
      | SetExpr obj name e \<Rightarrow>
          rbind (self (T_evaluate obj) interp) (\<lambda>ob interp.
            case ob of
              VInstance i k \<Rightarrow>
                rbind (self (T_evaluate e) interp) (\<lambda>v interp.
                rbind (on_instance i (OInstance_set L name v) interp) (\<lambda>u interp.
                  (interp, Inr v)))
            | _ \<Rightarrow> (interp, Inl (RuntimeError name ''Only instances have fields.'')))
      | This keyword \<Rightarrow> (interp, Environment_get (environment interp) keyword interp)
      | NewExpr class_name arguments \<Rightarrow>
          (case Environment_get (environment interp) class_name interp of
             Inl e \<Rightarrow> (interp, Inl e)
           | Inr (VClass k) \<Rightarrow>
               rbind (evaluate_list self arguments interp) (\<lambda>args interp.
                 let ar = OClass_arity k
                 in if int (length args) \<noteq> ar then
                      (interp, Inl (RuntimeError class_name
                         (''Expected '' @ str_int ar @ '' arguments but got ''
                          @ str_int (int (length args)) @ ''.'')))
                    else OClass_call self k args interp)
           | Inr other \<Rightarrow>
               (interp, Inl (RuntimeError class_name
                  ([CHR 0x27] @ lexeme class_name @ [CHR 0x27] @ '' is not a class.'')))))"

definition execute ::
  "'n pylib \<Rightarrow> ('n task \<Rightarrow> 'n Interpreter \<Rightarrow> 'n res) \<Rightarrow> 'n Stmt \<Rightarrow> 'n Interpreter \<Rightarrow> 'n res" where
  "execute L self stmt interp =
     (case stmt of
        ExpressionStmt e \<Rightarrow>
          rbind (self (T_evaluate e) interp) (\<lambda>v interp. (interp, Inr VNone))
      | PrintStmt e \<Rightarrow>
          rbind (self (T_evaluate e) interp) (\<lambda>v interp.
            (interp\<lparr>printed := printed interp @ [serialize_oval L v @ [CHR 0x0A]]\<rparr>, Inr VNone))
      | VarStmt name initializer \<Rightarrow>
          rbind (case initializer of
                   Some e \<Rightarrow> self (T_evaluate e) interp
                 | None \<Rightarrow> (interp, Inr VNone)) (\<lambda>v interp.
            (Environment_define (environment interp) (lexeme name) v interp, Inr VNone))
      | BlockStmt statements \<Rightarrow>
          (let (interp, env) = new_Environment (Some (environment interp)) interp
           in execute_block self statements env interp)
      | IfStmt condition then_branch else_branch \<Rightarrow>
          rbind (self (T_evaluate condition) interp) (\<lambda>c interp.
            if is_truthy c then self (T_execute then_branch) interp
            else (case else_branch of
                    Some s \<Rightarrow> self (T_execute s) interp
                  | None \<Rightarrow> (interp, Inr VNone)))
      | WhileStmt condition b \<Rightarrow>
          rbind (self (T_evaluate condition) interp) (\<lambda>c interp.
            if is_truthy c then
              rbind (self (T_execute b) interp) (\<lambda>u interp.
                self (T_execute (WhileStmt condition b)) interp)
            else (interp, Inr VNone))
      | FunctionDecl f \<Rightarrow>
          (let (interp, a) = fresh_addr interp;
               func = OFunction a f (environment interp) False
           in (Environment_define (environment interp) (lexeme (fname f)) (VFunction func) interp,
               Inr VNone))
      | ReturnStmt keyword e \<Rightarrow>
          rbind (case e of
                   Some e \<Rightarrow> self (T_evaluate e) interp
                 | None \<Rightarrow> (interp, Inr VNone)) (\<lambda>v interp.
            (interp, Inl (ReturnException v)))
      | ClassStmt name ms \<Rightarrow>
          (let interp = Environment_define (environment interp) (lexeme name) VNone interp;
               (interp, mths) =
                 fold (\<lambda>m (interp, mths).
                         let (interp, a) = fresh_addr interp
                         in (interp,
                             AList.update (lexeme (fname m))
                               (OFunction a m (environment interp) (lexeme (fname m) = ''init''))
                               mths))
                   ms (interp, []);
               (interp, a) = fresh_addr interp;
               k = OClass a (lexeme name) mths
           in rbind (Environment_assign (environment interp) name (VClass k) interp) (\<lambda>u interp.
                (interp, Inr VNone))))"

primrec eval_rec :: "nat \<Rightarrow> 'n pylib \<Rightarrow> 'n task \<Rightarrow> 'n Interpreter \<Rightarrow> 'n res" where
  "eval_rec 0 L t interp = (interp, Inl OutOfFuel)"
| "eval_rec (Suc n) L t interp =
     (case t of
        T_evaluate e \<Rightarrow> evaluate L (eval_rec n L) e interp
      | T_execute s \<Rightarrow> execute L (eval_rec n L) s interp)"

text \<open>
  \<^verbatim>\<open>Interpreter.interpret\<close>, \<^verbatim>\<open>Interpreter.evaluate\<close> and \<^verbatim>\<open>Interpreter.execute\<close> with at
  most \<open>n\<close> nested calls of \<^verbatim>\<open>evaluate\<close> and \<^verbatim>\<open>execute\<close>.
\<close>

definition Interpreter_interpret :: "nat \<Rightarrow> 'n pylib \<Rightarrow> 'n Stmt list \<Rightarrow> 'n Interpreter \<Rightarrow> 'n res" where
  "Interpreter_interpret n L statements interp = execute_statements (eval_rec n L) statements interp"

definition Interpreter_evaluate :: "nat \<Rightarrow> 'n pylib \<Rightarrow> 'n Expr \<Rightarrow> 'n Interpreter \<Rightarrow> 'n res" where
  "Interpreter_evaluate n L expr interp = eval_rec n L (T_evaluate expr) interp"

definition Interpreter_execute :: "nat \<Rightarrow> 'n pylib \<Rightarrow> 'n Stmt \<Rightarrow> 'n Interpreter \<Rightarrow> 'n res" where
  "Interpreter_execute n L stmt interp = eval_rec n L (T_execute stmt) interp"

section \<open>Auxiliary definitions for the statements\<close>

text \<open>
  The label coercion as the specification words it: a label that is not a string is
  serialized with the value serializer.
\<close>

definition coerced_label :: "'n pylib \<Rightarrow> 'n oval \<Rightarrow> string" where
  "coerced_label L label = (case label of VStr s \<Rightarrow> s | _ \<Rightarrow> serialize_oval L label)"

text \<open>
  A history operation on one instance, and a run of them. The run goes on after an
  operation that raised, from the state the operation left, as the read-eval-print loop
  does; a script stops at the first exception, so its runs are among these.
\<close>

datatype 'n hist_op = Write "'n Token" "'n oval" | Undo int | Redo int

definition do_op ::
  "'n pylib \<Rightarrow> 'n hist_op \<Rightarrow> 'n Interpreter \<times> 'n OInstance \<Rightarrow> 'n Interpreter \<times> 'n OInstance" where
  "do_op L op s =
     (case op of
        Write name_token v \<Rightarrow> fst (OInstance_set L name_token v s)
      | Undo ln \<Rightarrow> fst (OInstance_undo L ln s)
      | Redo ln \<Rightarrow> fst (OInstance_redo L ln s))"

text \<open>
  A library over the integers, to evaluate the definitions at concrete inputs: integer
  arithmetic, and fixed strings for what \<^verbatim>\<open>json.dumps\<close> prints.
\<close>

definition int_lib :: "int pylib" where
  "int_lib =
     \<lparr>n_of_bool = (\<lambda>b. if b then 1 else 0), n_of_int = (\<lambda>i. i), n_neg = (\<lambda>x. - x),
      n_add = (\<lambda>x y. x + y), n_sub = (\<lambda>x y. x - y), n_mul = (\<lambda>x y. x * y),
      n_truediv = (\<lambda>x y. x div y),
      n_gt = (\<lambda>x y. x > y), n_ge = (\<lambda>x y. x \<ge> y), n_lt = (\<lambda>x y. x < y), n_le = (\<lambda>x y. x \<le> y),
      n_eq = (\<lambda>x y. x = y), n_is_integer_float = (\<lambda>x. False), n_int = (\<lambda>x. x),
      n_str = str_int, json_dumps_list = (\<lambda>xs. ''[]''), py_repr_list = (\<lambda>xs. ''[]''),
      json_dumps_dict = (\<lambda>d. ''{}'')\<rparr>"

definition C0 :: "int OClass" where
  "C0 = OClass 7 ''C'' []"

definition ident :: "string \<Rightarrow> int \<Rightarrow> int Token" where
  "ident name ln = Token IDENTIFIER name LitNone ln"

text \<open>A new instance of the class \<^verbatim>\<open>C\<close> in a new interpreter.\<close>

definition new_C0 :: "int Interpreter \<times> int OInstance" where
  "new_C0 = make_instance C0 (Interpreter_init [] (\<lambda>k. 0))"

text \<open>
  The instance after \<^verbatim>\<open>p.a = 1; p.checkpoint("s"); p.a = 2; p.b = 9;\<close> and after a further
  \<^verbatim>\<open>p.undo();\<close>.
\<close>

definition after_writes :: "int Interpreter \<times> int OInstance" where
  "after_writes =
     fold (do_op int_lib) [Write (ident ''a'' 3) (VNum 2), Write (ident ''b'' 4) (VNum 9)]
       (fst (OInstance_checkpoint int_lib (VStr ''s'') 2
          (fst (OInstance_set int_lib (ident ''a'' 1) (VNum 1) new_C0))))"

definition after_undo :: "int Interpreter \<times> int OInstance" where
  "after_undo = fst (OInstance_undo int_lib 5 after_writes)"

text \<open>
  The instance after \<^verbatim>\<open>p.x = 1; p.__snapshot__ = "";\<close>: the lexer reads \<^verbatim>\<open>__snapshot__\<close>
  as an identifier like any other.
\<close>

definition marker_state :: "int Interpreter \<times> int OInstance" where
  "marker_state =
     fold (do_op int_lib)
       [Write (ident ''x'' 1) (VNum 1), Write (ident ''__snapshot__'' 2) (VStr '''')] new_C0"

text \<open>The interpreter after \<^verbatim>\<open>class C {}\<close>, and the tokens of a call written over two lines.\<close>

definition declared_C :: "int Interpreter" where
  "declared_C =
     fst (Interpreter_execute 1 int_lib (ClassStmt (ident ''C'' 1) []) (Interpreter_init [] (\<lambda>k. 0)))"

definition paren2 :: "int Token" where
  "paren2 = Token RIGHT_PAREN '')'' LitNone 2"

text \<open>
  The instance after \<^verbatim>\<open>p.me = p; p.checkpoint("s");\<close>: its field map, and the
  checkpointed one, hold the instance itself.
\<close>

definition self_ref_state :: "int Interpreter \<times> int OInstance" where
  "self_ref_state =
     fst (OInstance_checkpoint int_lib (VStr ''s'') 2
       (fst (OInstance_set int_lib (ident ''me'' 1) (VInstance 1 C0) new_C0)))"

text \<open>
  The interpreter after \<^verbatim>\<open>class D { fun undo() {} }\<close>, the class it binds to \<^verbatim>\<open>D\<close>, and
  new instances of \<^verbatim>\<open>D\<close> and of \<^verbatim>\<open>C\<close> in the interpreters that declared them.
\<close>

definition declared_D :: "int Interpreter" where
  "declared_D =
     fst (Interpreter_execute 1 int_lib
            (ClassStmt (ident ''D'' 1) [FunctionStmt (ident ''undo'' 1) [] []])
            (Interpreter_init [] (\<lambda>k. 0)))"

definition D0 :: "int OClass" where
  "D0 = OClass 8 ''D'' [(''undo'', OFunction 7 (FunctionStmt (ident ''undo'' 1) [] []) 0 False)]"

definition new_D0 :: "int Interpreter \<times> int OInstance" where
  "new_D0 = make_instance D0 declared_D"

definition new_C :: "int Interpreter \<times> int OInstance" where
  "new_C = make_instance C0 declared_C"

text \<open>
  \<open>replay F ps F'\<close>: the patches \<open>ps\<close> are what a run of field writes, none of them to a
  field named \<^verbatim>\<open>__snapshot__\<close>, pushes when it starts from the field map \<open>F\<close> and ends
  with \<open>F'\<close>.
\<close>

primrec replay ::
  "(string \<times> 'n oval) list \<Rightarrow> 'n patch list \<Rightarrow> (string \<times> 'n oval) list \<Rightarrow> bool" where
  "replay F [] F' \<longleftrightarrow> F' = F"
| "replay F (p # ps) F' \<longleftrightarrow>
     (case p of (field, old, new, st, ln) \<Rightarrow>
        field \<noteq> ''__snapshot__''
        \<and> old = (case map_of F field of None \<Rightarrow> Undefined | Some x \<Rightarrow> Val x)
        \<and> (case new of Val v \<Rightarrow> replay (AList.update field v F) ps F' | _ \<Rightarrow> False))"

definition is_plain_write :: "'n hist_op \<Rightarrow> bool" where
  "is_plain_write op = (case op of Write t v \<Rightarrow> lexeme t \<noteq> ''__snapshot__'' | _ \<Rightarrow> False)"

section \<open>Properties of the history engine\<close>

lemmas hist_defs = OInstance_set_def OInstance_undo_def OInstance_redo_def
  OInstance_checkpoint_def OInstance_rollback_def next_step_def record_event_def Let_def
  coerced_label_def

lemmas eval_defs = hist_defs OInstance_init_def Interpreter_init_def make_instance_def
  serialize_value_def serialize_oval_def py_dict_def int_lib_def C0_def do_op_def json_ok_def
  ident_def new_C0_def after_writes_def after_undo_def marker_state_def

lemma after_writes_instance:
  "snd after_writes =
     \<lparr>klass = C0, obj_id = 1, ifields = [(''a'', VNum 2), (''b'', VNum 9)],
      past = [(''a'', Undefined, Val (VNum 1), 2, 1), (''a'', Val (VNum 1), Val (VNum 2), 4, 3),
              (''b'', Undefined, Val (VNum 9), 5, 4)],
      future = [], checkpoints = [(''s'', [(''a'', VNum 1)])]\<rparr>"
  by (simp add: eval_defs)

lemma after_undo_instance:
  "snd after_undo =
     \<lparr>klass = C0, obj_id = 1, ifields = [(''a'', VNum 2)],
      past = [(''a'', Undefined, Val (VNum 1), 2, 1), (''a'', Val (VNum 1), Val (VNum 2), 4, 3)],
      future = [(''b'', Undefined, Val (VNum 9), 5, 4)],
      checkpoints = [(''s'', [(''a'', VNum 1)])]\<rparr>"
  by (simp add: eval_defs)

lemma rollback_found:
  assumes "map_of (checkpoints self) (coerced_label L label) = Some stored"
  shows "OInstance_rollback L label ln (interp, self) =
     ((record_event (JDict
          [(''type'', JStr ''rollback''), (''step'', JInt (step interp + 1)), (''line'', JInt ln),
           (''object'', JStr (obj_label self)), (''name'', JStr (coerced_label L label)),
           (''fields_after'', JDict (map (\<lambda>(k, v). (k, JStr (serialize_oval L v))) stored))])
         (interp\<lparr>step := step interp + 1\<rparr>),
       self\<lparr>past := past self @
               [(''__snapshot__'', Snapshot (ifields self), Snapshot stored, step interp + 1, ln)],
            future := [], ifields := stored\<rparr>),
      Inr VNone)"
  using assms
  by (simp add: OInstance_rollback_def next_step_def Let_def coerced_label_def obj_label_def
      serialize_fields_def)

lemma undo_snapshot_instance:
  assumes "past self = ps @ [(''__snapshot__'', Snapshot a, nw, os, ol)]"
  shows "snd (fst (OInstance_undo L ln (interp, self))) =
     self\<lparr>past := ps, ifields := a,
          future := future self @ [(''__snapshot__'', Snapshot a, nw, os, ol)]\<rparr>"
  using assms
  by (simp add: OInstance_undo_def next_step_def Let_def py_dict_def split: sum.splits)

lemma redo_snapshot_instance:
  assumes "future self = fs @ [(''__snapshot__'', od, Snapshot b, os, ol)]"
  shows "snd (fst (OInstance_redo L ln (interp, self))) =
     self\<lparr>future := fs, ifields := b,
          past := past self @ [(''__snapshot__'', od, Snapshot b, os, ol)]\<rparr>"
  using assms
  by (simp add: OInstance_redo_def next_step_def Let_def py_dict_def split: sum.splits)

text \<open>
  C1, as the code has it. After \<^verbatim>\<open>set\<close>, and after a \<^verbatim>\<open>rollback\<close> that found its
  checkpoint, the instance's future stack is empty; \<^verbatim>\<open>checkpoint\<close> leaves the future
  stack as it was, so it is empty afterwards only if it was empty before.
\<close>

theorem future_after_set_rollback_checkpoint:
  "future (snd (fst (OInstance_set L name_token v (interp, self)))) = []
   \<and> (map_of (checkpoints self) (coerced_label L label) \<noteq> None \<longrightarrow>
        future (snd (fst (OInstance_rollback L label ln (interp, self)))) = [])
   \<and> future (snd (fst (OInstance_checkpoint L label ln (interp, self)))) = future self"
  by (auto simp add: hist_defs serialize_value_def split: prod.splits sum.splits option.splits)

theorem future_after_set_rollback_checkpoint_witness:
  "future (snd after_undo) \<noteq> []
   \<and> map_of (checkpoints (snd after_undo)) (coerced_label int_lib (VStr ''s'')) \<noteq> None
   \<and> future (snd (fst (OInstance_rollback int_lib (VStr ''s'') 6 after_undo))) = []"
proof -
  have p: "(fst after_undo, snd after_undo) = after_undo" by simp
  have h1: "future (snd after_undo) \<noteq> []"
    by (simp add: after_undo_instance)
  have h2: "map_of (checkpoints (snd after_undo)) (coerced_label int_lib (VStr ''s'')) \<noteq> None"
    by (simp add: after_undo_instance coerced_label_def)
  from future_after_set_rollback_checkpoint
         [of int_lib "ident ''a'' 1" "VNum 1" "fst after_undo" "snd after_undo" "VStr ''s''" 6,
          unfolded p] h2
  have "future (snd (fst (OInstance_rollback int_lib (VStr ''s'') 6 after_undo))) = []"
    by blast
  with h1 h2 show ?thesis by blast
qed

text \<open>
  C1 as stated fails for \<^verbatim>\<open>checkpoint\<close>: after \<^verbatim>\<open>p.x = 5; p.undo(); p.checkpoint("k");\<close>
  on a new instance the future stack still holds the undone patch.
\<close>

theorem checkpoint_keeps_future_counterexample:
  "future (snd (fst (OInstance_checkpoint int_lib (VStr ''k'') 3
      (fst (OInstance_undo int_lib 2
        (fst (OInstance_set int_lib (ident ''x'' 1) (VNum 5) new_C0))))))) \<noteq> []"
  by (simp add: eval_defs)

text \<open>
  A \<^verbatim>\<open>rollback\<close> that found its checkpoint returns nil and pushes exactly one patch on
  the past stack; one \<^verbatim>\<open>undo\<close> then sets the live field map back to what it was just
  before the rollback (and the past stack too), and one \<^verbatim>\<open>redo\<close> after that sets the
  live field map to the checkpointed map again. This is the state each call leaves,
  whatever it returns: \<^verbatim>\<open>_undo\<close> and \<^verbatim>\<open>_redo\<close> restore the map before they build
  their event.
\<close>

lemma rollback_undo_redo:
  assumes "map_of (checkpoints self) (coerced_label L label) = Some stored"
  shows "snd (OInstance_rollback L label ln (interp, self)) = Inr VNone
     \<and> (\<exists>p. past (snd (fst (OInstance_rollback L label ln (interp, self)))) = past self @ [p])
     \<and> ifields (snd (fst (OInstance_rollback L label ln (interp, self)))) = stored
     \<and> ifields (snd (fst (OInstance_undo L ln2 (fst (OInstance_rollback L label ln (interp, self))))))
         = ifields self
     \<and> past (snd (fst (OInstance_undo L ln2 (fst (OInstance_rollback L label ln (interp, self))))))
         = past self
     \<and> ifields (snd (fst (OInstance_redo L ln3 (fst (OInstance_undo L ln2
           (fst (OInstance_rollback L label ln (interp, self))))))))
         = stored"
proof -
  let ?p = "(''__snapshot__'', Snapshot (ifields self), Snapshot stored, step interp + 1, ln)"
  obtain i1 s1 where rb: "fst (OInstance_rollback L label ln (interp, self)) = (i1, s1)"
    by (cases "fst (OInstance_rollback L label ln (interp, self))")
  have s1: "s1 = self\<lparr>past := past self @ [?p], future := [], ifields := stored\<rparr>"
    and r1: "snd (OInstance_rollback L label ln (interp, self)) = Inr VNone"
    using rb rollback_found [OF assms, of ln interp] by simp_all
  obtain i2 s2 where un: "fst (OInstance_undo L ln2 (i1, s1)) = (i2, s2)"
    by (cases "fst (OInstance_undo L ln2 (i1, s1))")
  have "past s1 = past self @ [?p]" using s1 by simp
  from undo_snapshot_instance [OF this, of L ln2 i1] un
  have s2: "s2 = s1\<lparr>past := past self, ifields := ifields self, future := future s1 @ [?p]\<rparr>"
    by simp
  have "future s2 = [] @ [?p]" using s2 s1 by simp
  from redo_snapshot_instance [OF this, of L ln3 i2]
  have s3: "snd (fst (OInstance_redo L ln3 (i2, s2))) =
      s2\<lparr>future := [], ifields := stored, past := past s2 @ [?p]\<rparr>" .
  have c2: "\<exists>p. past s1 = past self @ [p]" using s1 by simp
  have c3: "ifields s1 = stored" using s1 by simp
  have c4: "ifields s2 = ifields self" and c5: "past s2 = past self" using s2 by simp_all
  have c6: "ifields (snd (fst (OInstance_redo L ln3 (i2, s2)))) = stored" using s3 by simp
  show ?thesis
    using r1 c2 c3 c4 c5 c6 by (simp only: rb un snd_conv simp_thms)
qed

lemma rollback_undo_redo_example:
  "map_of (checkpoints (snd after_writes)) (coerced_label int_lib (VStr ''s'')) = Some [(''a'', VNum 1)]
   \<and> ifields (snd (fst (OInstance_rollback int_lib (VStr ''s'') 5 after_writes))) = [(''a'', VNum 1)]
   \<and> ifields (snd (fst (OInstance_undo int_lib 6
         (fst (OInstance_rollback int_lib (VStr ''s'') 5 after_writes)))))
       = [(''a'', VNum 2), (''b'', VNum 9)]"
proof -
  have h: "map_of (checkpoints (snd after_writes)) (coerced_label int_lib (VStr ''s''))
             = Some [(''a'', VNum 1)]"
    by (simp add: after_writes_instance coerced_label_def)
  have p: "(fst after_writes, snd after_writes) = after_writes" by simp
  from rollback_undo_redo [OF h, of 5 "fst after_writes" 6 7, unfolded p]
  have "ifields (snd (fst (OInstance_rollback int_lib (VStr ''s'') 5 after_writes))) = [(''a'', VNum 1)]"
    and "ifields (snd (fst (OInstance_undo int_lib 6
           (fst (OInstance_rollback int_lib (VStr ''s'') 5 after_writes))))) = ifields (snd after_writes)"
    by blast+
  with h show ?thesis by (simp add: after_writes_instance)
qed

text \<open>
  C2 fails on the code where a snapshot holds an instance, a class or a function. After
  \<^verbatim>\<open>p.me = p; p.checkpoint("s");\<close> the call \<^verbatim>\<open>p.rollback("s")\<close> returns nil, and the
  \<^verbatim>\<open>p.undo()\<close> after it raises Python's \<^verbatim>\<open>TypeError\<close>: the event of \<^verbatim>\<open>_undo\<close> serializes
  the two snapshots with \<^verbatim>\<open>json.dumps\<close>, which refuses the instance. A script ends
  there, before any \<^verbatim>\<open>redo\<close>; where the session goes on, \<^verbatim>\<open>p.redo()\<close> raises the same.
\<close>

theorem undo_of_rollback_raises:
  "snd (OInstance_rollback int_lib (VStr ''s'') 3 self_ref_state) = Inr VNone
   \<and> ifields (snd (fst (OInstance_rollback int_lib (VStr ''s'') 3 self_ref_state)))
       = [(''me'', VInstance 1 C0)]
   \<and> snd (OInstance_undo int_lib 4 (fst (OInstance_rollback int_lib (VStr ''s'') 3 self_ref_state)))
       = Inl (TypeError ''Object is not JSON serializable'')
   \<and> snd (OInstance_redo int_lib 5 (fst (OInstance_undo int_lib 4
            (fst (OInstance_rollback int_lib (VStr ''s'') 3 self_ref_state)))))
       = Inl (TypeError ''Object is not JSON serializable'')"
  by (simp add: eval_defs self_ref_state_def)

text \<open>
  C8. When the checkpoint table has no entry for the coerced label, \<^verbatim>\<open>rollback\<close> raises
  the runtime error that names the label, and the interpreter (step counter, trace) and
  the instance (fields, past, future, checkpoints) are exactly as before the call.
\<close>

theorem rollback_unknown_label:
  assumes "map_of (checkpoints self) (coerced_label L label) = None"
  shows "OInstance_rollback L label ln (interp, self) =
           ((interp, self),
            Inl (RuntimeError (Token IDENTIFIER ''rollback'' LitNone ln)
                   (''No checkpoint named '' @ [CHR 0x27] @ coerced_label L label @ [CHR 0x27] @ ''.'')))"
  using assms by (simp add: OInstance_rollback_def coerced_label_def)

theorem rollback_unknown_label_witness:
  "map_of (checkpoints (snd new_C0)) (coerced_label int_lib (VStr ''nope'')) = None
   \<and> OInstance_rollback int_lib (VStr ''nope'') 1 new_C0 =
       (new_C0, Inl (RuntimeError (Token IDENTIFIER ''rollback'' LitNone 1) ''No checkpoint named 'nope'.''))
   \<and> length (trace (fst new_C0)) = 1"
proof -
  have h: "map_of (checkpoints (snd new_C0)) (coerced_label int_lib (VStr ''nope'')) = None"
    by (simp add: eval_defs)
  have p: "(fst new_C0, snd new_C0) = new_C0" by simp
  have l: "coerced_label int_lib (VStr ''nope'') = ''nope''" by (simp add: coerced_label_def)
  have t: "length (trace (fst new_C0)) = 1" by (simp add: eval_defs)
  from rollback_unknown_label [OF h, of 1 "fst new_C0", unfolded p l]
  show ?thesis using h t by simp
qed

lemma checkpoint_effect:
  "OInstance_checkpoint L label ln (interp, self) =
     ((record_event (JDict
          [(''type'', JStr ''checkpoint''), (''step'', JInt (step interp + 1)), (''line'', JInt ln),
           (''object'', JStr (obj_label self)), (''name'', JStr (coerced_label L label)),
           (''fields_after'', serialize_fields L self)])
         (interp\<lparr>step := step interp + 1\<rparr>),
       self\<lparr>checkpoints := AList.update (coerced_label L label) (ifields self) (checkpoints self)\<rparr>),
      Inr VNone)"
  by (simp add: OInstance_checkpoint_def next_step_def Let_def coerced_label_def obj_label_def
      serialize_fields_def)

lemma set_effect:
  "OInstance_set L t v (interp, self) =
     ((record_event (JDict
          [(''type'', JStr ''set''), (''step'', JInt (step interp + 1)), (''line'', JInt (line t)),
           (''object'', JStr (obj_label self)), (''field'', JStr (lexeme t)),
           (''old'', JStr (case map_of (ifields self) (lexeme t) of
                             None \<Rightarrow> ''<undefined>'' | Some x \<Rightarrow> serialize_oval L x)),
           (''new'', JStr (serialize_oval L v)),
           (''fields_after'', JDict (map (\<lambda>(k, v). (k, JStr (serialize_oval L v)))
                                  (AList.update (lexeme t) v (ifields self))))])
         (interp\<lparr>step := step interp + 1\<rparr>),
       self\<lparr>past := past self @
               [(lexeme t, (case map_of (ifields self) (lexeme t) of
                              None \<Rightarrow> Undefined | Some x \<Rightarrow> Val x), Val v,
                 step interp + 1, line t)],
            future := [], ifields := AList.update (lexeme t) v (ifields self)\<rparr>),
      Inr ())"
  by (simp add: OInstance_set_def Let_def next_step_def serialize_value_def obj_label_def
      serialize_fields_def split: option.splits)

lemma set_checkpoints:
  "checkpoints (snd (fst (OInstance_set L t v s))) = checkpoints (snd s)"
  by (cases s) (simp add: set_effect)

lemma undo_checkpoints:
  "checkpoints (snd (fst (OInstance_undo L ln s))) = checkpoints (snd s)"
  by (cases s)
    (simp add: OInstance_undo_def Let_def next_step_def split: prod.splits sum.splits slot.splits)

lemma redo_checkpoints:
  "checkpoints (snd (fst (OInstance_redo L ln s))) = checkpoints (snd s)"
  by (cases s)
    (simp add: OInstance_redo_def Let_def next_step_def split: prod.splits sum.splits slot.splits)

lemma do_op_checkpoints: "checkpoints (snd (do_op L op s)) = checkpoints (snd s)"
  by (cases op) (simp_all add: do_op_def set_checkpoints undo_checkpoints redo_checkpoints)

lemma fold_do_op_checkpoints: "checkpoints (snd (fold (do_op L) ops s)) = checkpoints (snd s)"
  by (induction ops arbitrary: s) (simp_all add: do_op_checkpoints)

text \<open>
  C10. \<^verbatim>\<open>checkpoint(v)\<close> returns nil and writes the live field map into the checkpoint
  table under the coerced label of \<open>v\<close>; a \<^verbatim>\<open>rollback(v)\<close> right after it, for any value
  \<open>v\<close>, returns nil too, names the same coerced label in its event, and restores the very
  map that the checkpoint stored under it.
\<close>

theorem checkpoint_rollback_same_label:
  "snd (OInstance_checkpoint L v ln (interp, self)) = Inr VNone
   \<and> checkpoints (snd (fst (OInstance_checkpoint L v ln (interp, self))))
       = AList.update (coerced_label L v) (ifields self) (checkpoints self)
   \<and> OInstance_rollback L v ln2 (fst (OInstance_checkpoint L v ln (interp, self))) =
       ((record_event (JDict
          [(''type'', JStr ''rollback''), (''step'', JInt (step interp + 2)), (''line'', JInt ln2),
           (''object'', JStr (obj_label self)), (''name'', JStr (coerced_label L v)),
           (''fields_after'', serialize_fields L self)])
         ((fst (fst (OInstance_checkpoint L v ln (interp, self))))\<lparr>step := step interp + 2\<rparr>),
        self\<lparr>checkpoints := AList.update (coerced_label L v) (ifields self) (checkpoints self),
             past := past self @
               [(''__snapshot__'', Snapshot (ifields self), Snapshot (ifields self),
                 step interp + 2, ln2)],
             future := [], ifields := ifields self\<rparr>),
        Inr VNone)"
proof -
  let ?s1 = "self\<lparr>checkpoints := AList.update (coerced_label L v) (ifields self) (checkpoints self)\<rparr>"
  have "map_of (checkpoints ?s1) (coerced_label L v) = Some (ifields self)"
    by (simp add: update_conv')
  from rollback_found [OF this, of ln2]
  show ?thesis
    by (simp add: checkpoint_effect record_event_def obj_label_def serialize_fields_def)
qed

text \<open>
  C4. After \<^verbatim>\<open>checkpoint(label)\<close> and then any run of field writes, undos and redos
  (whatever each of them returned or raised), \<^verbatim>\<open>rollback(label)\<close> returns nil and the live
  field map is exactly the map the instance had when the checkpoint was taken; so a field
  added in between is gone.
\<close>

theorem checkpoint_rollback_restores:
  "snd (OInstance_rollback L label ln2
          (fold (do_op L) ops (fst (OInstance_checkpoint L label ln (interp, self))))) = Inr VNone
   \<and> ifields (snd (fst (OInstance_rollback L label ln2
          (fold (do_op L) ops (fst (OInstance_checkpoint L label ln (interp, self)))))))
       = ifields self"
proof -
  obtain i2 s2 where
    s2: "fold (do_op L) ops (fst (OInstance_checkpoint L label ln (interp, self))) = (i2, s2)"
    by (cases "fold (do_op L) ops (fst (OInstance_checkpoint L label ln (interp, self)))")
  have a: "checkpoints (snd (fst (OInstance_checkpoint L label ln (interp, self))))
             = AList.update (coerced_label L label) (ifields self) (checkpoints self)"
    by (simp add: checkpoint_effect)
  have "checkpoints s2 = checkpoints (snd (fst (OInstance_checkpoint L label ln (interp, self))))"
    using fold_do_op_checkpoints [of L ops "fst (OInstance_checkpoint L label ln (interp, self))"]
    by (simp only: s2 snd_conv)
  with a have "map_of (checkpoints s2) (coerced_label L label) = Some (ifields self)"
    by (simp add: update_conv')
  from rollback_found [OF this, of ln2 i2]
  show ?thesis by (simp add: s2)
qed

text \<open>
  C3 fails on the code for the field name \<^verbatim>\<open>__snapshot__\<close>. From the state reached by
  \<^verbatim>\<open>p.x = 1; p.__snapshot__ = "";\<close> (empty future stack), the one write
  \<^verbatim>\<open>p.__snapshot__ = "";\<close> leaves the map \<open>{x: 1, __snapshot__: ""}\<close>; one \<^verbatim>\<open>undo\<close> and
  one \<^verbatim>\<open>redo\<close> both return nil, and the live field map is then empty: \<^verbatim>\<open>_undo\<close> and
  \<^verbatim>\<open>_redo\<close> take the write's patch for a rollback patch and replace the whole map by
  \<^verbatim>\<open>dict("")\<close>.
\<close>

theorem undo_redo_marker_field:
  "future (snd marker_state) = []
   \<and> ifields (snd (fold (do_op int_lib) [Write (ident ''__snapshot__'' 3) (VStr '''')] marker_state))
       = [(''x'', VNum 1), (''__snapshot__'', VStr '''')]
   \<and> snd (OInstance_undo int_lib 4
            (fold (do_op int_lib) [Write (ident ''__snapshot__'' 3) (VStr '''')] marker_state))
       = Inr VNone
   \<and> snd (OInstance_redo int_lib 5 (fst (OInstance_undo int_lib 4
            (fold (do_op int_lib) [Write (ident ''__snapshot__'' 3) (VStr '''')] marker_state))))
       = Inr VNone
   \<and> ifields (snd (fst (OInstance_redo int_lib 5 (fst (OInstance_undo int_lib 4
            (fold (do_op int_lib) [Write (ident ''__snapshot__'' 3) (VStr '''')] marker_state))))))
       = []"
  by (simp add: eval_defs)

text \<open>
  On a new instance, \<^verbatim>\<open>p.__snapshot__ = 1; p.undo();\<close> ends in Python's \<^verbatim>\<open>TypeError\<close>:
  \<^verbatim>\<open>dict\<close> is applied to the sentinel.
\<close>

lemma undo_marker_field_raises:
  "snd (OInstance_undo int_lib 2
          (fst (OInstance_set int_lib (ident ''__snapshot__'' 1) (VNum 1) new_C0)))
     = Inl (TypeError ''object is not iterable'')"
  by (simp add: eval_defs)

section \<open>Properties of the operators\<close>

lemmas op_defs = binary_op_def check_number_operands_def as_number_def Let_def

text \<open>
  C6 fails on the code for boolean operands: \<^verbatim>\<open>true - 1\<close> is 0 and \<^verbatim>\<open>true < 2\<close> is true,
  with no runtime error, and \<^verbatim>\<open>1 / false\<close> is a division by zero.
\<close>

theorem bool_operands_are_numbers:
  "binary_op int_lib (Token MINUS ''-'' LitNone 1) (VBool True) (VNum 1) = Inr (VNum 0)
   \<and> binary_op int_lib (Token LESS ''<'' LitNone 1) (VBool True) (VNum 2) = Inr (VBool True)
   \<and> binary_op int_lib (Token SLASH ''/'' LitNone 1) (VNum 1) (VBool False)
       = Inl (RuntimeError (Token SLASH ''/'' LitNone 1) ''Division by zero.'')"
  by (simp add: op_defs int_lib_def)

text \<open>
  What does hold of the seven operators: on two numbers the result is the arithmetic
  one, or the division-by-zero error; and when an operand is neither a number nor a
  boolean the error is \<^verbatim>\<open>Operands must be numbers.\<close>
\<close>

lemma binary_op_numbers:
  assumes "ttype operator \<in> {MINUS, STAR, SLASH, GREATER, GREATER_EQUAL, LESS, LESS_EQUAL}"
  shows "binary_op L operator (VNum a) (VNum b) =
     (if ttype operator = MINUS then Inr (VNum (n_sub L a b))
      else if ttype operator = STAR then Inr (VNum (n_mul L a b))
      else if ttype operator = SLASH then
        (if n_eq L b (n_of_int L 0) then Inl (RuntimeError operator ''Division by zero.'')
         else Inr (VNum (n_truediv L a b)))
      else if ttype operator = GREATER then Inr (VBool (n_gt L a b))
      else if ttype operator = GREATER_EQUAL then Inr (VBool (n_ge L a b))
      else if ttype operator = LESS then Inr (VBool (n_lt L a b))
      else Inr (VBool (n_le L a b)))"
  using assms by (auto simp add: op_defs)

lemma binary_op_not_numbers:
  assumes "ttype operator \<in> {MINUS, STAR, SLASH, GREATER, GREATER_EQUAL, LESS, LESS_EQUAL}"
    and "as_number L left = None \<or> as_number L right = None"
  shows "binary_op L operator left right = Inl (RuntimeError operator ''Operands must be numbers.'')"
  using assms
  by (auto simp add: binary_op_def check_number_operands_def Let_def split: option.splits)

section \<open>Properties of the parser\<close>

lemma pbind_simps:
  "pbind (Inr a) f = f a"
  "pbind (Inl e) f = Inl e"
  by (simp_all add: pbind_def)

lemma peek_Cons: "peek (t # rest) = Inr t"
  by (simp add: peek_def)

lemma check_Cons: "check ty (t # rest) = Inr (ttype t \<noteq> EOF \<and> ttype t = ty)"
  by (simp add: check_def is_at_end_def peek_def pbind_def)

lemma Parser_match_Cons:
  "Parser_match tys (t # rest) =
     Inr (if ttype t \<noteq> EOF \<and> ttype t \<in> set tys then (Some t, rest) else (None, t # rest))"
  by (induction tys) (auto simp add: check_Cons pbind_simps)

lemma consume_Cons:
  "consume ty message (t # rest) =
     (if ttype t \<noteq> EOF \<and> ttype t = ty then Inr (t, rest) else Inl (Parser_error t message))"
  by (simp add: consume_def check_Cons peek_Cons pbind_simps)

lemmas parser_simps = pbind_simps peek_Cons check_Cons Parser_match_Cons consume_Cons

lemmas expr_defs = parse_assignment_def parse_or_def parse_and_def parse_equality_def
  parse_comparison_def parse_term_def parse_factor_def parse_unary_def parse_call_def
  parse_primary_def

lemma expression_literal: "parses_literal (parse_rec (Suc m) N_expression)"
  by (auto simp add: parses_literal_def expr_defs parser_simps num0_def)

lemma primary_new_loop_many_args:
  assumes "parses_literal E" and "ttype t = RIGHT_PAREN"
  shows "j < k \<Longrightarrow> primary_new_loop k E args (many_args j @ t # rest)
           = Inr (args @ replicate (Suc j) (Literal (LitNum 0)), t # rest)"
proof (induction j arbitrary: k args)
  case 0
  then obtain k' where k: "k = Suc k'" by (cases k) auto
  from assms have "E (num0 # t # rest) = Inr (Literal (LitNum 0), t # rest)"
    by (simp add: parses_literal_def)
  then show ?case
    by (simp add: k assms(2) parser_simps)
next
  case (Suc j)
  then obtain k' where k: "k = Suc k'" and j: "j < k'" by (cases k) auto
  from assms have "E (num0 # tk COMMA '','' # many_args j @ t # rest)
      = Inr (Literal (LitNum 0), tk COMMA '','' # many_args j @ t # rest)"
    by (simp add: parses_literal_def tk_def)
  then show ?case
    by (simp add: k Suc.IH [OF j] parser_simps tk_def replicate_append_same)
qed

lemma finish_call_loop_many_args:
  assumes "parses_literal E" and "ttype t = RIGHT_PAREN"
  shows "j < k \<Longrightarrow> length args \<le> 255 \<Longrightarrow>
         finish_call_loop k E args (many_args j @ t # rest)
           = (if length args + Suc j \<le> 255
              then Inr (args @ replicate (Suc j) (Literal (LitNum 0)), t # rest)
              else Inl (Parser_error num0 ''Can't have more than 255 arguments.''))"
proof (induction j arbitrary: k args)
  case 0
  then obtain k' where k: "k = Suc k'" by (cases k) auto
  from assms have "E (num0 # t # rest) = Inr (Literal (LitNum 0), t # rest)"
    by (simp add: parses_literal_def)
  then show ?case
    using "0.prems" by (auto simp add: k assms(2) parser_simps)
next
  case (Suc j)
  then obtain k' where k: "k = Suc k'" and j: "j < k'" by (cases k) auto
  from assms have e: "E (num0 # tk COMMA '','' # many_args j @ t # rest)
      = Inr (Literal (LitNum 0), tk COMMA '','' # many_args j @ t # rest)"
    by (simp add: parses_literal_def tk_def)
  show ?case
  proof (cases "length args \<ge> 255")
    case True
    then show ?thesis by (simp add: k parser_simps)
  next
    case False
    then have l: "length (args @ [Literal (LitNum 0)]) \<le> 255" by simp
    from False e show ?thesis
      by (simp add: k Suc.IH [OF j l] parser_simps tk_def replicate_append_same)
  qed
qed

lemma length_many_args: "length (many_args j) = 2 * j + 1"
  by (induction j) simp_all

lemma many_args_Cons: "\<exists>ts. many_args j = num0 # ts"
  by (cases j) simp_all

lemma check_many_args: "check ty (many_args j @ rest) = Inr (ty = NUMBER)"
  using many_args_Cons [of j] by (auto simp add: check_Cons num0_def)

lemma primary_new_many_args:
  assumes "parses_literal E"
  shows "parse_primary E (new_tokens j)
           = Inr (NewExpr (tk IDENTIFIER ''C'') (replicate (Suc j) (Literal (LitNum 0))),
                  [tk SEMICOLON '';'', tk EOF ''''])"
proof -
  have t: "ttype (tk RIGHT_PAREN '')'') = RIGHT_PAREN" by (simp add: tk_def)
  have types: "ttype (tk ty s) = ty" for ty s by (simp add: tk_def)
  show ?thesis
    unfolding new_tokens_def parse_primary_def
    by (simp add: parser_simps check_many_args primary_new_loop_many_args [OF assms t]
        length_many_args types del: primary_new_loop.simps)
qed

lemma finish_call_many_args:
  assumes "parses_literal E"
  shows "finish_call E callee (many_args j @ [tk RIGHT_PAREN '')'', tk SEMICOLON '';'', tk EOF ''''])
           = (if Suc j \<le> 255
              then Inr (Call callee (tk RIGHT_PAREN '')'') (replicate (Suc j) (Literal (LitNum 0))),
                        [tk SEMICOLON '';'', tk EOF ''''])
              else Inl (Parser_error num0 ''Can't have more than 255 arguments.''))"
proof -
  have t: "ttype (tk RIGHT_PAREN '')'') = RIGHT_PAREN" by (simp add: tk_def)
  have types: "ttype (tk ty s) = ty" for ty s by (simp add: tk_def)
  show ?thesis
    unfolding finish_call_def
    by (simp add: parser_simps check_many_args finish_call_loop_many_args [OF assms t]
        length_many_args types del: finish_call_loop.simps)
qed

lemma binary_loop_stop:
  assumes "ttype t \<notin> set tys"
  shows "binary_loop (Suc k) tys mk operand expr (t # rest) = Inr (expr, t # rest)"
  using assms by (simp add: parser_simps)

lemma call_loop_stop:
  assumes "ttype t \<noteq> LEFT_PAREN" and "ttype t \<noteq> DOT"
  shows "call_loop (Suc k) E expr (t # rest) = Inr (expr, t # rest)"
  using assms by (simp add: parser_simps)

lemma expression_new_many_args:
  "parse_rec (Suc (Suc m)) N_expression (new_tokens j)
     = Inr (NewExpr (tk IDENTIFIER ''C'') (replicate (Suc j) (Literal (LitNum 0))),
            [tk SEMICOLON '';'', tk EOF ''''])"
proof -
  have types: "ttype (tk ty s) = ty" for ty s by (simp add: tk_def)
  have hd: "new_tokens j = tk NEW ''new'' # tl (new_tokens j)" by (simp add: new_tokens_def)
  have m: "Parser_match [BANG, MINUS] (new_tokens j) = Inr (None, new_tokens j)"
    by (subst hd, simp add: Parser_match_Cons types, simp add: hd [symmetric])
  have e: "parses_literal (parse_rec (Suc m) N_expression)" by (rule expression_literal)
  have u: "parse_unary (parse_rec (Suc m)) (new_tokens j)
      = Inr (NewExpr (tk IDENTIFIER ''C'') (replicate (Suc j) (Literal (LitNum 0))),
            [tk SEMICOLON '';'', tk EOF ''''])"
    unfolding parse_unary_def parse_call_def
    by (simp add: m pbind_simps primary_new_many_args [OF e] call_loop_stop types
        del: call_loop.simps Parser_match.simps)
  show ?thesis
    by (simp add: parse_assignment_def parse_or_def parse_and_def parse_equality_def
        parse_comparison_def parse_term_def parse_factor_def u parser_simps binary_loop_stop
        types del: binary_loop.simps Parser_match.simps)
qed

lemma expression_call_many_args:
  "parse_rec (Suc (Suc m)) N_expression (call_tokens j)
     = (if Suc j \<le> 255
        then Inr (Call (Variable (tk IDENTIFIER ''C'')) (tk RIGHT_PAREN '')'')
                    (replicate (Suc j) (Literal (LitNum 0))),
                  [tk SEMICOLON '';'', tk EOF ''''])
        else Inl (Parser_error num0 ''Can't have more than 255 arguments.''))"
proof -
  have types: "ttype (tk ty s) = ty" for ty s by (simp add: tk_def)
  have e: "parses_literal (parse_rec (Suc m) N_expression)" by (rule expression_literal)
  have u: "parse_unary (parse_rec (Suc m)) (call_tokens j)
     = (if Suc j \<le> 255
        then Inr (Call (Variable (tk IDENTIFIER ''C'')) (tk RIGHT_PAREN '')'')
                    (replicate (Suc j) (Literal (LitNum 0))),
                  [tk SEMICOLON '';'', tk EOF ''''])
        else Inl (Parser_error num0 ''Can't have more than 255 arguments.''))"
    unfolding parse_unary_def parse_call_def parse_primary_def call_tokens_def
    by (simp add: parser_simps types finish_call_many_args [OF e] del: Parser_match.simps)
  show ?thesis
    by (simp add: parse_assignment_def parse_or_def parse_and_def parse_equality_def
        parse_comparison_def parse_term_def parse_factor_def u parser_simps binary_loop_stop
        types del: binary_loop.simps Parser_match.simps)
qed

lemma parse_expression_statement:
  assumes "parse_expression (Suc (Suc m)) ts = Inr (e, [tk SEMICOLON '';'', tk EOF ''''])"
    and "\<exists>t rest. ts = t # rest \<and> ttype t \<notin> {EOF, CLASS, FUN, VAR, PRINT, LEFT_BRACE, IF, WHILE, RETURN}"
  shows "parse (Suc (Suc m)) ts = Inr [ExpressionStmt e]"
proof -
  have types: "ttype (tk ty s) = ty" for ty s by (simp add: tk_def)
  from assms(2) obtain t rest where ts: "ts = t # rest"
    and t: "ttype t \<notin> {EOF, CLASS, FUN, VAR, PRINT, LEFT_BRACE, IF, WHILE, RETURN}" by blast
  have m: "Parser_match [ty] ts = Inr (None, ts)"
    if "ty \<in> {CLASS, FUN, VAR, PRINT, LEFT_BRACE, IF, WHILE, RETURN}" for ty
    using that t by (auto simp add: ts Parser_match_Cons)
  define D :: "int Token list \<Rightarrow> int sres"
    where "D = stmt_rec (Suc (Suc m)) (parse_expression (Suc (Suc m))) N_declaration"
  have s: "D ts = Inr (ExpressionStmt e, [tk EOF ''''])"
    unfolding D_def
    by (simp add: parse_declaration_def parse_statement_def expression_statement_def m assms(1)
        pbind_simps consume_Cons types del: Parser_match.simps)
  have a: "is_at_end ts = Inr False"
    using t by (simp add: ts is_at_end_def peek_Cons pbind_simps)
  have b: "is_at_end [tk EOF ''''] = Inr True"
    by (simp add: is_at_end_def peek_Cons pbind_simps types)
  have "parse_loop (Suc (Suc (length rest))) D [] ts = Inr [ExpressionStmt e]"
    by (simp add: a s b pbind_simps)
  then show ?thesis
    by (simp add: parse_def D_def ts)
qed

lemma parse_expression_statement_error:
  assumes "parse_expression (Suc (Suc m)) (ts :: int Token list) = Inl err"
    and "\<exists>t rest. ts = t # rest \<and> ttype t \<notin> {EOF, CLASS, FUN, VAR, PRINT, LEFT_BRACE, IF, WHILE, RETURN}"
  shows "parse (Suc (Suc m)) ts = Inl err"
proof -
  from assms(2) obtain t rest where ts: "ts = t # rest"
    and t: "ttype t \<notin> {EOF, CLASS, FUN, VAR, PRINT, LEFT_BRACE, IF, WHILE, RETURN}" by blast
  have m: "Parser_match [ty] ts = Inr (None, ts)"
    if "ty \<in> {CLASS, FUN, VAR, PRINT, LEFT_BRACE, IF, WHILE, RETURN}" for ty
    using that t by (auto simp add: ts Parser_match_Cons)
  define D :: "int Token list \<Rightarrow> int sres"
    where "D = stmt_rec (Suc (Suc m)) (parse_expression (Suc (Suc m))) N_declaration"
  have s: "D ts = Inl err"
    unfolding D_def
    by (simp add: parse_declaration_def parse_statement_def expression_statement_def m assms(1)
        pbind_simps del: Parser_match.simps)
  have a: "is_at_end ts = Inr False"
    using t by (simp add: ts is_at_end_def peek_Cons pbind_simps)
  have "parse_loop (Suc (Suc (length rest))) D [] ts = Inl err"
    by (simp add: a s pbind_simps)
  then show ?thesis
    by (simp add: parse_def D_def ts)
qed

text \<open>
  C5 fails on the code for \<^verbatim>\<open>new\<close>: the parser accepts \<^verbatim>\<open>new C(0, ..., 0);\<close> with 256
  arguments (at any depth of recursion from 2 on) and builds the node with all 256.
\<close>

theorem new_accepts_256_arguments:
  "parse (Suc (Suc m)) (new_tokens 255)
     = Inr [ExpressionStmt (NewExpr (tk IDENTIFIER ''C'') (replicate 256 (Literal (LitNum 0))))]"
proof -
  have "parse_expression (Suc (Suc m)) (new_tokens 255)
      = Inr (NewExpr (tk IDENTIFIER ''C'') (replicate (Suc 255) (Literal (LitNum 0))),
             [tk SEMICOLON '';'', tk EOF ''''])"
    unfolding parse_expression_def by (rule expression_new_many_args)
  moreover have "\<exists>t rest. new_tokens 255 = t # rest
      \<and> ttype t \<notin> {EOF, CLASS, FUN, VAR, PRINT, LEFT_BRACE, IF, WHILE, RETURN}"
    by (simp add: new_tokens_def tk_def)
  ultimately have "parse (Suc (Suc m)) (new_tokens 255)
      = Inr [ExpressionStmt (NewExpr (tk IDENTIFIER ''C'') (replicate (Suc 255) (Literal (LitNum 0))))]"
    by (rule parse_expression_statement)
  then show ?thesis by simp
qed

text \<open>
  The sibling path does what the claim says: the call \<^verbatim>\<open>C(0, ..., 0);\<close> is parsed with
  255 arguments and refused with 256, at the 256th.
\<close>

lemma call_accepts_255_arguments:
  "parse (Suc (Suc m)) (call_tokens 254)
     = Inr [ExpressionStmt (Call (Variable (tk IDENTIFIER ''C'')) (tk RIGHT_PAREN '')'')
              (replicate 255 (Literal (LitNum 0))))]"
proof -
  have "parse_expression (Suc (Suc m)) (call_tokens 254)
      = Inr (Call (Variable (tk IDENTIFIER ''C'')) (tk RIGHT_PAREN '')'')
               (replicate (Suc 254) (Literal (LitNum 0))),
             [tk SEMICOLON '';'', tk EOF ''''])"
    unfolding parse_expression_def using expression_call_many_args [of m 254] by simp
  moreover have "\<exists>t rest. call_tokens 254 = t # rest
      \<and> ttype t \<notin> {EOF, CLASS, FUN, VAR, PRINT, LEFT_BRACE, IF, WHILE, RETURN}"
    by (simp add: call_tokens_def tk_def)
  ultimately have "parse (Suc (Suc m)) (call_tokens 254)
      = Inr [ExpressionStmt (Call (Variable (tk IDENTIFIER ''C'')) (tk RIGHT_PAREN '')'')
              (replicate (Suc 254) (Literal (LitNum 0))))]"
    by (rule parse_expression_statement)
  then show ?thesis by simp
qed

lemma call_refuses_256_arguments:
  "parse (Suc (Suc m)) (call_tokens 255)
     = Inl (ParseError ''[line 1] Error at '0': Can't have more than 255 arguments.'')"
proof -
  have "parse_expression (Suc (Suc m)) (call_tokens 255)
      = Inl (Parser_error num0 ''Can't have more than 255 arguments.'')"
    unfolding parse_expression_def using expression_call_many_args [of m 255] by simp
  moreover have "\<exists>t rest. call_tokens 255 = t # rest
      \<and> ttype t \<notin> {EOF, CLASS, FUN, VAR, PRINT, LEFT_BRACE, IF, WHILE, RETURN}"
    by (simp add: call_tokens_def tk_def)
  ultimately have "parse (Suc (Suc m)) (call_tokens 255)
      = Inl (Parser_error num0 ''Can't have more than 255 arguments.'')"
    by (rule parse_expression_statement_error)
  then show ?thesis
    by (simp add: Parser_error_def num0_def str_int_def str_nat.simps)
qed

lemma function_params_loop_many_params:
  assumes "ttype t = RIGHT_PAREN"
  shows "j < k \<Longrightarrow> length ps \<le> 255 \<Longrightarrow>
         function_params_loop k ps (many_params j @ t # rest)
           = (if length ps + Suc j \<le> 255
              then Inr (ps @ replicate (Suc j) (tk IDENTIFIER ''a''), t # rest)
              else Inl (Parser_error (tk IDENTIFIER ''a'') ''Can't have more than 255 parameters.''))"
proof (induction j arbitrary: k ps)
  case 0
  then obtain k' where k: "k = Suc k'" by (cases k) auto
  show ?case
    using "0.prems" by (auto simp add: k assms parser_simps tk_def)
next
  case (Suc j)
  then obtain k' where k: "k = Suc k'" and j: "j < k'" by (cases k) auto
  show ?case
  proof (cases "length ps \<ge> 255")
    case True
    then show ?thesis by (simp add: k parser_simps)
  next
    case False
    then have l: "length (ps @ [tk IDENTIFIER ''a'']) \<le> 255" by simp
    have types: "ttype (tk ty s) = ty" for ty s by (simp add: tk_def)
    from False show ?thesis
      by (simp add: k Suc.IH [OF j l] parser_simps types replicate_append_same)
  qed
qed

lemma length_many_params: "length (many_params j) = 2 * j + 1"
  by (induction j) simp_all

lemma check_many_params: "check ty (many_params j @ rest) = Inr (ty = IDENTIFIER)"
  by (cases j) (auto simp add: check_Cons tk_def)

lemma function_many_params:
  "parse_function kind D (tl (fun_tokens j))
     = (if Suc j \<le> 255
        then Inr (FunctionStmt (tk IDENTIFIER ''f'') (replicate (Suc j) (tk IDENTIFIER ''a'')) [],
                  [tk EOF ''''])
        else Inl (Parser_error (tk IDENTIFIER ''a'') ''Can't have more than 255 parameters.''))"
proof -
  have t: "ttype (tk RIGHT_PAREN '')'') = RIGHT_PAREN" by (simp add: tk_def)
  have types: "ttype (tk ty s) = ty" for ty s by (simp add: tk_def)
  show ?thesis
    unfolding fun_tokens_def parse_function_def parse_block_def
    by (simp add: parser_simps check_many_params function_params_loop_many_params [OF t]
        length_many_params types is_at_end_def del: function_params_loop.simps)
qed

text \<open>
  So does \<^verbatim>\<open>function\<close>: \<^verbatim>\<open>fun f(a, ..., a) {}\<close> is parsed with 255 parameters and
  refused with 256, at the 256th.
\<close>

lemma function_accepts_255_parameters:
  "parse (Suc m) (fun_tokens 254)
     = Inr [FunctionDecl (FunctionStmt (tk IDENTIFIER ''f'') (replicate 255 (tk IDENTIFIER ''a'')) [])]"
proof -
  have types: "ttype (tk ty s) = ty" for ty s by (simp add: tk_def)
  have hd: "fun_tokens 254 = tk FUN ''fun'' # tl (fun_tokens 254)" by (simp add: fun_tokens_def)
  define D :: "int Token list \<Rightarrow> int sres"
    where "D = stmt_rec (Suc m) (parse_expression (Suc m)) N_declaration"
  have s: "D (fun_tokens 254)
      = Inr (FunctionDecl (FunctionStmt (tk IDENTIFIER ''f'') (replicate 255 (tk IDENTIFIER ''a'')) []),
             [tk EOF ''''])"
    unfolding D_def
    by (subst hd)
      (simp add: parse_declaration_def Parser_match_Cons pbind_simps types function_many_params
        del: Parser_match.simps)
  have a: "is_at_end (fun_tokens 254) = Inr False"
    by (subst hd) (simp add: is_at_end_def peek_Cons pbind_simps types)
  have b: "is_at_end [tk EOF ''''] = Inr True"
    by (simp add: is_at_end_def peek_Cons pbind_simps types)
  have "parse_loop (Suc (Suc (length (tl (fun_tokens 254))))) D [] (fun_tokens 254)
      = Inr [FunctionDecl (FunctionStmt (tk IDENTIFIER ''f'') (replicate 255 (tk IDENTIFIER ''a'')) [])]"
    by (simp add: a s b pbind_simps)
  moreover have "Suc (length (fun_tokens 254)) = Suc (Suc (length (tl (fun_tokens 254))))"
    by (simp add: fun_tokens_def)
  ultimately show ?thesis
    unfolding parse_def by (simp only: D_def)
qed

lemma function_refuses_256_parameters:
  "parse (Suc m) (fun_tokens 255)
     = Inl (ParseError ''[line 1] Error at 'a': Can't have more than 255 parameters.'')"
proof -
  have types: "ttype (tk ty s) = ty" for ty s by (simp add: tk_def)
  have hd: "fun_tokens 255 = tk FUN ''fun'' # tl (fun_tokens 255)" by (simp add: fun_tokens_def)
  define D :: "int Token list \<Rightarrow> int sres"
    where "D = stmt_rec (Suc m) (parse_expression (Suc m)) N_declaration"
  have s: "D (fun_tokens 255)
      = Inl (Parser_error (tk IDENTIFIER ''a'') ''Can't have more than 255 parameters.'')"
    unfolding D_def
    by (subst hd)
      (simp add: parse_declaration_def Parser_match_Cons pbind_simps types function_many_params
        del: Parser_match.simps)
  have a: "is_at_end (fun_tokens 255) = Inr False"
    by (subst hd) (simp add: is_at_end_def peek_Cons pbind_simps types)
  have "parse_loop (Suc (Suc (length (tl (fun_tokens 255))))) D [] (fun_tokens 255)
      = Inl (Parser_error (tk IDENTIFIER ''a'') ''Can't have more than 255 parameters.'')"
    by (simp add: a s pbind_simps)
  moreover have "Suc (length (fun_tokens 255)) = Suc (Suc (length (tl (fun_tokens 255))))"
    by (simp add: fun_tokens_def)
  moreover have "Parser_error (tk IDENTIFIER ''a'') ''Can't have more than 255 parameters.''
      = ParseError ''[line 1] Error at 'a': Can't have more than 255 parameters.''"
    by (simp add: Parser_error_def tk_def str_int_def str_nat.simps)
  ultimately show ?thesis
    unfolding parse_def by (simp only: D_def)
qed

section \<open>Properties of the evaluator\<close>

lemma rbind_simps:
  "rbind (interp, Inr a) f = f a interp"
  "rbind (interp, Inl e) f = (interp, Inl e)"
  by (simp_all add: rbind_def)

lemma OClass_arity_nonneg: "0 \<le> OClass_arity k"
  by (simp add: OClass_arity_def OFunction_arity_def split: option.splits)

lemma evaluate_Variable:
  "eval_rec (Suc n) L (T_evaluate (Variable c)) interp
     = (interp, Environment_get (environment interp) c interp)"
  by (simp add: evaluate_def)

text \<open>
  C9, as the code has it. Where the name \<open>c\<close> is bound to a class, the call \<^verbatim>\<open>c(args)\<close>
  and \<^verbatim>\<open>new c(args)\<close> evaluate the arguments alike and, when an argument raises, end
  alike; when the number of arguments is the class's arity both are the same
  \<^verbatim>\<open>OClass.call\<close> (a new instance with its \<^verbatim>\<open>new\<close> event, the bound \<^verbatim>\<open>init\<close> run on the
  arguments, the instance returned); otherwise both raise the same message from the same
  state, the call at its closing parenthesis and \<^verbatim>\<open>new\<close> at the class name.
\<close>

theorem call_of_class_is_new:
  assumes "Environment_get (environment interp) c interp = Inr (VClass k)"
  shows "(case evaluate_list (eval_rec (Suc n) L) arguments interp of
            (interp', Inl e) \<Rightarrow>
              Interpreter_evaluate (Suc (Suc n)) L (Call (Variable c) paren arguments) interp
                = (interp', Inl e)
              \<and> Interpreter_evaluate (Suc (Suc n)) L (NewExpr c arguments) interp = (interp', Inl e)
          | (interp', Inr args) \<Rightarrow>
              if int (length args) = OClass_arity k then
                Interpreter_evaluate (Suc (Suc n)) L (Call (Variable c) paren arguments) interp
                  = OClass_call (eval_rec (Suc n) L) k args interp'
                \<and> Interpreter_evaluate (Suc (Suc n)) L (NewExpr c arguments) interp
                  = OClass_call (eval_rec (Suc n) L) k args interp'
              else
                Interpreter_evaluate (Suc (Suc n)) L (Call (Variable c) paren arguments) interp
                  = (interp', Inl (RuntimeError paren
                       (''Expected '' @ str_int (OClass_arity k) @ '' arguments but got ''
                        @ str_int (int (length args)) @ ''.'')))
                \<and> Interpreter_evaluate (Suc (Suc n)) L (NewExpr c arguments) interp
                  = (interp', Inl (RuntimeError c
                       (''Expected '' @ str_int (OClass_arity k) @ '' arguments but got ''
                        @ str_int (int (length args)) @ ''.''))))"
proof -
  obtain interp' r where ev: "evaluate_list (eval_rec (Suc n) L) arguments interp = (interp', r)"
    by (cases "evaluate_list (eval_rec (Suc n) L) arguments interp")
  have ar: "OClass_arity k \<noteq> - 1"
    using OClass_arity_nonneg [of k] by simp
  have call: "Interpreter_evaluate (Suc (Suc n)) L (Call (Variable c) paren arguments) interp
      = rbind (interp', r) (\<lambda>args interp.
          if int (length args) \<noteq> OClass_arity k then
            (interp, Inl (RuntimeError paren
               (''Expected '' @ str_int (OClass_arity k) @ '' arguments but got ''
                @ str_int (int (length args)) @ ''.'')))
          else OClass_call (eval_rec (Suc n) L) k args interp)"
    unfolding Interpreter_evaluate_def
    by (subst eval_rec.simps)
      (simp add: evaluate_def [of L "eval_rec (Suc n) L"] evaluate_Variable assms rbind_simps ev
        callable_arity_def callable_call_def ar del: eval_rec.simps cong: if_cong)
  have new: "Interpreter_evaluate (Suc (Suc n)) L (NewExpr c arguments) interp
      = rbind (interp', r) (\<lambda>args interp.
          if int (length args) \<noteq> OClass_arity k then
            (interp, Inl (RuntimeError c
               (''Expected '' @ str_int (OClass_arity k) @ '' arguments but got ''
                @ str_int (int (length args)) @ ''.'')))
          else OClass_call (eval_rec (Suc n) L) k args interp)"
    unfolding Interpreter_evaluate_def
    by (subst eval_rec.simps)
      (simp add: evaluate_def [of L "eval_rec (Suc n) L"] assms ev Let_def del: eval_rec.simps)
  show ?thesis
    by (cases r) (simp_all add: ev call new rbind_simps)
qed

lemmas run_defs = Interpreter_evaluate_def Interpreter_execute_def evaluate_def execute_def
  rbind_def Environment_get_def Environment_assign_def Environment_define_def fresh_addr_def
  callable_arity_def callable_call_def OClass_arity_def OClass_call_def find_method_def
  literal_value_def Interpreter_init_def ident_def Let_def

lemma declared_C_state:
  "declared_C = (Interpreter_init [] (\<lambda>k. 0))
     \<lparr>envs := (envs (Interpreter_init [] (\<lambda>k. 0)))
               (0 \<mapsto> \<lparr>enclosing = None,
                      env_values = env_values (the (envs (Interpreter_init [] (\<lambda>k. 0)) 0))
                                   @ [(''C'', VClass (OClass 7 ''C'' []))]\<rparr>),
      next_addr := 8\<rparr>"
  by (simp add: declared_C_def run_defs)

theorem call_of_class_is_new_witness:
  "Environment_get (environment declared_C) (ident ''C'' 1) declared_C = Inr (VClass (OClass 7 ''C'' []))
   \<and> Interpreter_evaluate 2 int_lib (Call (Variable (ident ''C'' 1)) paren2 []) declared_C
       = Interpreter_evaluate 2 int_lib (NewExpr (ident ''C'' 1) []) declared_C
   \<and> snd (Interpreter_evaluate 2 int_lib (NewExpr (ident ''C'' 1) []) declared_C)
       = Inr (VInstance 1 (OClass 7 ''C'' []))"
proof -
  have h: "Environment_get (environment declared_C) (ident ''C'' 1) declared_C
             = Inr (VClass (OClass 7 ''C'' []))"
    by (simp add: declared_C_state) (simp add: run_defs)
  have two: "(2::nat) = Suc (Suc 0)" by simp
  have a: "OClass_arity (OClass 7 ''C'' []) = 0"
    by (simp add: OClass_arity_def find_method_def)
  have r: "snd (OClass_call (eval_rec (Suc 0) int_lib) (OClass 7 ''C'' []) [] declared_C)
             = Inr (VInstance 1 (OClass 7 ''C'' []))"
    by (simp add: declared_C_state)
      (simp add: OClass_call_def find_method_def make_instance_def OInstance_init_def
        Interpreter_init_def next_step_def Let_def split: prod.splits)
  from call_of_class_is_new [OF h, where n = 0 and L = int_lib and arguments = "[]" and paren = paren2]
  show ?thesis
    using h r by (simp add: two a del: eval_rec.simps)
qed

text \<open>
  C9 as stated fails where the number of arguments is wrong: after \<^verbatim>\<open>class C {}\<close>, the
  call \<^verbatim>\<open>C(1)\<close> whose closing parenthesis is on line 2 raises its error at that token,
  and \<^verbatim>\<open>new C(1)\<close> raises it at the class name on line 1.
\<close>

theorem call_of_class_error_token_counterexample:
  "Interpreter_evaluate 2 int_lib (Call (Variable (ident ''C'' 1)) paren2 [Literal (LitNum 1)]) declared_C
     = (declared_C, Inl (RuntimeError paren2 ''Expected 0 arguments but got 1.''))
   \<and> Interpreter_evaluate 2 int_lib (NewExpr (ident ''C'' 1) [Literal (LitNum 1)]) declared_C
     = (declared_C, Inl (RuntimeError (ident ''C'' 1) ''Expected 0 arguments but got 1.''))
   \<and> Interpreter_evaluate 2 int_lib (Call (Variable (ident ''C'' 1)) paren2 [Literal (LitNum 1)]) declared_C
     \<noteq> Interpreter_evaluate 2 int_lib (NewExpr (ident ''C'' 1) [Literal (LitNum 1)]) declared_C"
proof -
  have two: "(2::nat) = Suc (Suc 0)" by simp
  have z: "str_int 0 = ''0''" and o: "str_int 1 = ''1''"
    by (simp_all add: str_int_def str_nat.simps)
  have c: "Interpreter_evaluate 2 int_lib (Call (Variable (ident ''C'' 1)) paren2 [Literal (LitNum 1)]) declared_C
     = (declared_C, Inl (RuntimeError paren2 ''Expected 0 arguments but got 1.''))"
    by (simp add: two declared_C_state) (simp add: run_defs z o)
  have n: "Interpreter_evaluate 2 int_lib (NewExpr (ident ''C'' 1) [Literal (LitNum 1)]) declared_C
     = (declared_C, Inl (RuntimeError (ident ''C'' 1) ''Expected 0 arguments but got 1.''))"
    by (simp add: two declared_C_state) (simp add: run_defs z o)
  show ?thesis
    by (simp add: c n) (simp add: paren2_def ident_def)
qed

section \<open>Properties of property lookup\<close>

text \<open>
  The interpreter after \<^verbatim>\<open>class D { fun undo() {} }\<close> binds \<^verbatim>\<open>D\<close> to the class \<open>D0\<close>; the new
  instances of \<^verbatim>\<open>D\<close> and of \<^verbatim>\<open>C\<close>.
\<close>

lemma declared_D_state:
  "declared_D = (Interpreter_init [] (\<lambda>k. 0))
     \<lparr>envs := (envs (Interpreter_init [] (\<lambda>k. 0)))
               (0 \<mapsto> \<lparr>enclosing = None,
                      env_values = env_values (the (envs (Interpreter_init [] (\<lambda>k. 0)) 0))
                                   @ [(''D'', VClass D0)]\<rparr>),
      next_addr := 9\<rparr>"
  by (simp add: declared_D_def D0_def run_defs)

lemma new_D0_state:
  "new_D0 = (declared_D\<lparr>objs := (objs declared_D)(1 \<mapsto> OInstance_init D0 1), next_obj_id := 2,
                          step := 1,
                          trace := [JDict [(''type'', JStr ''new''), (''step'', JInt 1),
                                           (''line'', JNull), (''object'', JStr ''D#1''),
                                           (''fields_after'', JDict [])]]\<rparr>,
             OInstance_init D0 1)"
  by (simp add: new_D0_def declared_D_state)
    (simp add: make_instance_def OInstance_init_def Interpreter_init_def next_step_def
      record_event_def Let_def D0_def str_int_def str_nat.simps)

lemma new_C_state:
  "new_C = (declared_C\<lparr>objs := (objs declared_C)(1 \<mapsto> OInstance_init C0 1), next_obj_id := 2,
                        step := 1,
                        trace := [JDict [(''type'', JStr ''new''), (''step'', JInt 1),
                                         (''line'', JNull), (''object'', JStr ''C#1''),
                                         (''fields_after'', JDict [])]]\<rparr>,
            OInstance_init C0 1)"
  by (simp add: new_C_def declared_C_state)
    (simp add: make_instance_def OInstance_init_def Interpreter_init_def next_step_def
      record_event_def Let_def C0_def str_int_def str_nat.simps)

lemma bind_fdecl: "fdecl (snd (OFunction_bind m i s)) = fdecl m"
  by (simp add: OFunction_bind_def new_Environment_def fresh_addr_def Let_def split: prod.splits)

text \<open>
  C7. For each of the seven built-in names, \<^verbatim>\<open>OInstance.get\<close> returns the field of that
  name when the live field map has one (and changes nothing); otherwise, when the method
  table of the instance's class has an entry of that name, that method bound to the
  instance (a new function with the method's declaration, whose closure is a new
  environment that encloses the method's and binds \<^verbatim>\<open>this\<close> to the instance); and only
  when neither has the name, the built-in of that name: a new native named
  \<^verbatim>\<open>Class.name\<close>, of arity 1 for \<^verbatim>\<open>checkpoint\<close> and \<^verbatim>\<open>rollback\<close> and of arity 0 for the
  others, that runs the operation of that name on this instance. So a field or a
  declared method with one of these names shadows the built-in.
\<close>

theorem get_lookup_order:
  assumes "lexeme t \<in> set [''undo'', ''redo'', ''history'', ''id'', ''checkpoint'', ''rollback'',
                           ''checkpoints'']"
  shows "(case map_of (ifields self) (lexeme t) of
            Some v \<Rightarrow> OInstance_get t interp self = (interp, Inr v)
          | None \<Rightarrow>
             (case map_of (methods (klass self)) (lexeme t) of
                Some m \<Rightarrow>
                  OInstance_get t interp self =
                    (interp\<lparr>next_addr := next_addr interp + 2,
                            envs := (envs interp)(next_addr interp \<mapsto>
                              \<lparr>enclosing = Some (closure m),
                               env_values = [(''this'', VInstance (obj_id self) (klass self))]\<rparr>)\<rparr>,
                     Inr (VFunction (OFunction (next_addr interp + 1) (fdecl m) (next_addr interp)
                                       (is_initializer m))))
              | None \<Rightarrow>
                  OInstance_get t interp self =
                    (interp\<lparr>next_addr := next_addr interp + 1\<rparr>,
                     Inr (VNative (NativeFunction (next_addr interp)
                            (cls_name (klass self) @ ''.'' @ lexeme t)
                            (if lexeme t \<in> set [''checkpoint'', ''rollback''] then 1 else 0)
                            (if lexeme t = ''undo'' then N_undo (obj_id self) (line t)
                             else if lexeme t = ''redo'' then N_redo (obj_id self) (line t)
                             else if lexeme t = ''history'' then N_history (obj_id self)
                             else if lexeme t = ''id'' then N_id (obj_id self)
                             else if lexeme t = ''checkpoint'' then N_checkpoint (obj_id self) (line t)
                             else if lexeme t = ''rollback'' then N_rollback (obj_id self) (line t)
                             else N_checkpoints (obj_id self)))))))"
proof (cases "map_of (ifields self) (lexeme t)")
  case (Some v)
  then show ?thesis by (simp add: OInstance_get_def)
next
  case None
  note f = None
  show ?thesis
  proof (cases "map_of (methods (klass self)) (lexeme t)")
    case (Some m)
    then show ?thesis
      by (simp add: f OInstance_get_def find_method_def OFunction_bind_def new_Environment_def
          Environment_define_def fresh_addr_def Let_def)
  next
    case None
    with assms show ?thesis
      by (auto simp add: f OInstance_get_def find_method_def new_NativeFunction_def fresh_addr_def
          Let_def)
  qed
qed

text \<open>
  The three cases on the name \<^verbatim>\<open>undo\<close>: after \<^verbatim>\<open>p.undo = 5;\<close> the property is the field;
  on an instance of \<^verbatim>\<open>class D { fun undo() {} }\<close> it is the declared method, bound; on an
  instance of \<^verbatim>\<open>class C {}\<close> it is the built-in.
\<close>

theorem get_lookup_order_witness:
  "lexeme (ident ''undo'' 2) \<in> set [''undo'', ''redo'', ''history'', ''id'', ''checkpoint'',
                                    ''rollback'', ''checkpoints'']
   \<and> OInstance_get (ident ''undo'' 2) (fst new_C0)
        (snd (fst (OInstance_set int_lib (ident ''undo'' 1) (VNum 5) new_C0)))
      = (fst new_C0, Inr (VNum 5))
   \<and> Environment_get (environment declared_D) (ident ''D'' 2) declared_D = Inr (VClass D0)
   \<and> snd (OInstance_get (ident ''undo'' 2) (fst new_D0) (snd new_D0))
      = Inr (VFunction (OFunction 10 (FunctionStmt (ident ''undo'' 1) [] []) 9 False))
   \<and> snd (OInstance_get (ident ''undo'' 2) (fst new_C) (snd new_C))
      = Inr (VNative (NativeFunction 8 ''C.undo'' 0 (N_undo 1 2)))"
proof -
  have h: "lexeme (ident ''undo'' 2) \<in> set [''undo'', ''redo'', ''history'', ''id'', ''checkpoint'',
                                           ''rollback'', ''checkpoints'']"
    by (simp add: ident_def)
  have f: "map_of (ifields (snd (fst (OInstance_set int_lib (ident ''undo'' 1) (VNum 5) new_C0))))
             (lexeme (ident ''undo'' 2)) = Some (VNum 5)"
    by (simp add: eval_defs)
  from get_lookup_order
         [OF h, where self = "snd (fst (OInstance_set int_lib (ident ''undo'' 1) (VNum 5) new_C0))"
                and interp = "fst new_C0"]
  have a: "OInstance_get (ident ''undo'' 2) (fst new_C0)
        (snd (fst (OInstance_set int_lib (ident ''undo'' 1) (VNum 5) new_C0)))
      = (fst new_C0, Inr (VNum 5))"
    by (simp add: f)
  have d: "Environment_get (environment declared_D) (ident ''D'' 2) declared_D = Inr (VClass D0)"
    by (simp add: declared_D_state) (simp add: run_defs)
  have fd: "map_of (ifields (snd new_D0)) (lexeme (ident ''undo'' 2)) = None"
    and md: "map_of (methods (klass (snd new_D0))) (lexeme (ident ''undo'' 2))
               = Some (OFunction 7 (FunctionStmt (ident ''undo'' 1) [] []) 0 False)"
    and nd: "next_addr (fst new_D0) = 9"
    by (simp_all add: new_D0_state OInstance_init_def D0_def declared_D_state ident_def)
  from get_lookup_order [OF h, where self = "snd new_D0" and interp = "fst new_D0"]
  have b: "snd (OInstance_get (ident ''undo'' 2) (fst new_D0) (snd new_D0))
      = Inr (VFunction (OFunction 10 (FunctionStmt (ident ''undo'' 1) [] []) 9 False))"
    by (simp add: fd md nd)
  have fc: "map_of (ifields (snd new_C)) (lexeme (ident ''undo'' 2)) = None"
    and mc: "map_of (methods (klass (snd new_C))) (lexeme (ident ''undo'' 2)) = None"
    and nc: "next_addr (fst new_C) = 8"
    and ic: "obj_id (snd new_C) = 1" and kc: "cls_name (klass (snd new_C)) = ''C''"
    by (simp_all add: new_C_state OInstance_init_def C0_def declared_C_state ident_def)
  from get_lookup_order [OF h, where self = "snd new_C" and interp = "fst new_C"]
  have c: "snd (OInstance_get (ident ''undo'' 2) (fst new_C) (snd new_C))
      = Inr (VNative (NativeFunction 8 ''C.undo'' 0 (N_undo 1 2)))"
    by (simp add: fc mc nc ic kc) (simp add: ident_def)
  from h a d b c show ?thesis by blast
qed

section \<open>Further properties of the history engine and of the operators\<close>

subsection \<open>Undo and redo of writes to fields not named like the snapshot marker\<close>

lemma delete_update_absent:
  "map_of F k = None \<Longrightarrow> AList.delete k (AList.update k v F) = F"
  by (induction F) (auto split: if_splits)

lemma update_update_present:
  "map_of F k = Some x \<Longrightarrow> AList.update k x (AList.update k v F) = F"
  by (induction F) (auto split: if_splits)

lemma update_present_same:
  "map_of F k = Some x \<Longrightarrow> AList.update k x F = F"
  by (induction F) (auto split: if_splits)

lemma do_op_simps:
  "do_op L (Write t v) s = fst (OInstance_set L t v s)"
  "do_op L (Undo ln) s = fst (OInstance_undo L ln s)"
  "do_op L (Redo ln) s = fst (OInstance_redo L ln s)"
  by (simp_all add: do_op_def)

lemma replay_snoc:
  "replay F (ps @ [(field, old, new, st, ln)]) F' \<longleftrightarrow>
     (\<exists>Fm v. replay F ps Fm \<and> field \<noteq> ''__snapshot__''
        \<and> old = (case map_of Fm field of None \<Rightarrow> Undefined | Some x \<Rightarrow> Val x)
        \<and> new = Val v \<and> F' = AList.update field v Fm)"
  by (induction ps arbitrary: F) (auto split: slot.splits prod.splits)

lemma undo_field_instance:
  assumes "past self = ps @ [(field, old, Val v, os, ol)]"
    and "field \<noteq> ''__snapshot__''"
    and "old = (case map_of Fm field of None \<Rightarrow> Undefined | Some x \<Rightarrow> Val x)"
    and "ifields self = AList.update field v Fm"
  shows "snd (fst (OInstance_undo L ln (interp, self))) =
     self\<lparr>past := ps, ifields := Fm, future := future self @ [(field, old, Val v, os, ol)]\<rparr>"
  using assms
  by (cases "map_of Fm field")
    (simp_all add: OInstance_undo_def next_step_def Let_def serialize_value_def
      delete_update_absent update_update_present update_present_same)

lemma redo_field_instance:
  assumes "future self = fs @ [(field, old, Val v, os, ol)]"
    and "field \<noteq> ''__snapshot__''"
  shows "snd (fst (OInstance_redo L ln (interp, self))) =
     self\<lparr>future := fs, ifields := AList.update field v (ifields self),
          past := past self @ [(field, old, Val v, os, ol)]\<rparr>"
  using assms
  by (cases old)
    (simp_all add: OInstance_redo_def next_step_def Let_def serialize_value_def split: sum.splits)

lemma writes_replay:
  assumes "\<forall>op \<in> set ws. is_plain_write op"
  shows "\<exists>P. past (snd (fold (do_op L) ws s)) = past (snd s) @ P
            \<and> replay (ifields (snd s)) P (ifields (snd (fold (do_op L) ws s)))
            \<and> length P = length ws"
  using assms
proof (induction ws arbitrary: s)
  case Nil
  then show ?case by simp
next
  case (Cons w ws)
  obtain interp self where s: "s = (interp, self)" by (cases s)
  from Cons.prems obtain t v where w: "w = Write t v" and t: "lexeme t \<noteq> ''__snapshot__''"
    by (cases w) (auto simp add: is_plain_write_def)
  let ?p = "(lexeme t, (case map_of (ifields self) (lexeme t) of
                          None \<Rightarrow> Undefined | Some x \<Rightarrow> Val x), Val v, step interp + 1, line t)"
  let ?s1 = "do_op L w s"
  have p1: "past (snd ?s1) = past self @ [?p]"
    and f1: "ifields (snd ?s1) = AList.update (lexeme t) v (ifields self)"
    by (simp_all add: s w do_op_simps set_effect)
  from Cons.prems have "\<forall>op \<in> set ws. is_plain_write op" by simp
  from Cons.IH [OF this, of ?s1] obtain P where
    P: "past (snd (fold (do_op L) ws ?s1)) = past (snd ?s1) @ P"
       "replay (ifields (snd ?s1)) P (ifields (snd (fold (do_op L) ws ?s1)))"
       "length P = length ws"
    by blast
  have "past (snd (fold (do_op L) (w # ws) s)) = past (snd s) @ (?p # P)"
    using P(1) p1 by (simp add: s)
  moreover have "replay (ifields (snd s)) (?p # P) (ifields (snd (fold (do_op L) (w # ws) s)))"
    using P(2) f1 t by (simp add: s)
  moreover have "length (?p # P) = length (w # ws)" using P(3) by simp
  ultimately show ?case by blast
qed

lemma undos_replay:
  assumes "replay F P F'"
  shows "past self = ps0 @ P \<Longrightarrow> ifields self = F' \<Longrightarrow> length uls = length P \<Longrightarrow>
         snd (fold (do_op L) (map Undo uls) (interp, self))
           = self\<lparr>past := ps0, ifields := F, future := future self @ rev P\<rparr>"
  using assms
proof (induction P arbitrary: self interp uls F' rule: rev_induct)
  case Nil
  then show ?case by simp
next
  case (snoc p P)
  obtain field old new st ln where p: "p = (field, old, new, st, ln)" by (cases p)
  from snoc.prems(4) obtain Fm v where
    Fm: "replay F P Fm" and m: "field \<noteq> ''__snapshot__''"
    and old: "old = (case map_of Fm field of None \<Rightarrow> Undefined | Some x \<Rightarrow> Val x)"
    and new: "new = Val v" and F': "F' = AList.update field v Fm"
    unfolding p replay_snoc by blast
  from snoc.prems(3) obtain u us where uls: "uls = u # us" and us: "length us = length P"
    by (cases uls) auto
  obtain i1 s1 where s1: "fst (OInstance_undo L u (interp, self)) = (i1, s1)"
    by (cases "fst (OInstance_undo L u (interp, self))")
  have pst: "past self = (ps0 @ P) @ [(field, old, Val v, st, ln)]"
    using snoc.prems(1) by (simp add: p new)
  have fl: "ifields self = AList.update field v Fm"
    using snoc.prems(2) by (simp add: F')
  from undo_field_instance [OF pst m old fl, of L u interp] s1
  have e1: "s1 = self\<lparr>past := ps0 @ P, ifields := Fm,
                      future := future self @ [(field, old, Val v, st, ln)]\<rparr>"
    by simp
  have "snd (fold (do_op L) (map Undo us) (i1, s1))
          = s1\<lparr>past := ps0, ifields := F, future := future s1 @ rev P\<rparr>"
    by (rule snoc.IH [OF _ _ us Fm]) (simp_all add: e1)
  then show ?case
    by (simp add: uls do_op_simps s1) (simp add: e1 p new)
qed

lemma redos_replay:
  assumes "replay F P F'"
  shows "future self = fs0 @ rev P \<Longrightarrow> ifields self = F \<Longrightarrow> length rls = length P \<Longrightarrow>
         snd (fold (do_op L) (map Redo rls) (interp, self))
           = self\<lparr>future := fs0, ifields := F', past := past self @ P\<rparr>"
  using assms
proof (induction P arbitrary: self interp rls F)
  case Nil
  then show ?case by simp
next
  case (Cons p P)
  obtain field old new st ln where p: "p = (field, old, new, st, ln)" by (cases p)
  from Cons.prems(4) obtain v where
    m: "field \<noteq> ''__snapshot__''" and new: "new = Val v"
    and r: "replay (AList.update field v F) P F'"
    unfolding p by (auto split: slot.splits)
  from Cons.prems(3) obtain u us where rls: "rls = u # us" and us: "length us = length P"
    by (cases rls) auto
  obtain i1 s1 where s1: "fst (OInstance_redo L u (interp, self)) = (i1, s1)"
    by (cases "fst (OInstance_redo L u (interp, self))")
  have fut: "future self = (fs0 @ rev P) @ [(field, old, Val v, st, ln)]"
    using Cons.prems(1) by (simp add: p new)
  from redo_field_instance [OF fut m, of L u interp] s1
  have e1: "s1 = self\<lparr>future := fs0 @ rev P, ifields := AList.update field v (ifields self),
                      past := past self @ [(field, old, Val v, st, ln)]\<rparr>"
    by simp
  have "snd (fold (do_op L) (map Redo us) (i1, s1))
          = s1\<lparr>future := fs0, ifields := F', past := past s1 @ P\<rparr>"
    by (rule Cons.IH [OF _ _ us r]) (simp_all add: e1 Cons.prems(2))
  then show ?case
    by (simp add: rls do_op_simps s1) (simp add: e1 p new)
qed

text \<open>
  For a run of writes none of which names the field \<^verbatim>\<open>__snapshot__\<close>, from any state: as
  many undos and then as many redos give back the live field map (and the past stack)
  that held after the writes.
\<close>

lemma undo_redo_restores_plain_writes:
  assumes "\<forall>op \<in> set ws. is_plain_write op"
    and "length uls = length ws" and "length rls = length ws"
  shows "ifields (snd (fold (do_op L) (map Redo rls)
            (fold (do_op L) (map Undo uls) (fold (do_op L) ws s))))
           = ifields (snd (fold (do_op L) ws s))
       \<and> ifields (snd (fold (do_op L) (map Undo uls) (fold (do_op L) ws s))) = ifields (snd s)"
proof -
  from writes_replay [OF assms(1), of L s] obtain P where
    P: "past (snd (fold (do_op L) ws s)) = past (snd s) @ P"
       "replay (ifields (snd s)) P (ifields (snd (fold (do_op L) ws s)))"
       "length P = length ws"
    by blast
  obtain i1 s1 where s1: "fold (do_op L) ws s = (i1, s1)"
    by (cases "fold (do_op L) ws s")
  obtain i2 s2 where s2: "fold (do_op L) (map Undo uls) (i1, s1) = (i2, s2)"
    by (cases "fold (do_op L) (map Undo uls) (i1, s1)")
  have "snd (fold (do_op L) (map Undo uls) (i1, s1))
          = s1\<lparr>past := past (snd s), ifields := ifields (snd s), future := future s1 @ rev P\<rparr>"
    by (rule undos_replay [OF P(2)]) (use P s1 assms in simp_all)
  then have e2: "s2 = s1\<lparr>past := past (snd s), ifields := ifields (snd s),
                         future := future s1 @ rev P\<rparr>"
    by (simp add: s2)
  have "snd (fold (do_op L) (map Redo rls) (i2, s2))
          = s2\<lparr>future := future s1, ifields := ifields s1, past := past s2 @ P\<rparr>"
    by (rule redos_replay [OF P(2) [unfolded s1 snd_conv]]) (use P e2 assms in simp_all)
  then show ?thesis
    by (simp add: s1 s2 e2)
qed

subsection \<open>What undo and redo of a rollback return\<close>

text \<open>
  \<^verbatim>\<open>_undo\<close> and \<^verbatim>\<open>_redo\<close> restore the field map before they build their event. The
  event serializes both snapshots with \<^verbatim>\<open>json.dumps\<close>: the call returns nil when every
  value in them can be dumped, and raises \<^verbatim>\<open>TypeError\<close>, after the restore, when a
  snapshot holds an instance, a class or a function.
\<close>

lemma undo_snapshot_result:
  assumes "past self = ps @ [(''__snapshot__'', Snapshot a, Snapshot b, os, ol)]"
  shows "snd (OInstance_undo L ln (interp, self)) =
           (if list_all json_ok (map snd b) \<and> list_all json_ok (map snd a) then Inr VNone
            else Inl (TypeError ''Object is not JSON serializable''))"
  using assms
  by (simp add: OInstance_undo_def next_step_def Let_def py_dict_def serialize_value_def)

lemma redo_snapshot_result:
  assumes "future self = fs @ [(''__snapshot__'', Snapshot a, Snapshot b, os, ol)]"
  shows "snd (OInstance_redo L ln (interp, self)) =
           (if list_all json_ok (map snd a) \<and> list_all json_ok (map snd b) then Inr VNone
            else Inl (TypeError ''Object is not JSON serializable''))"
  using assms
  by (simp add: OInstance_redo_def next_step_def Let_def py_dict_def serialize_value_def)

text \<open>
  After a rollback that found its checkpoint, \<^verbatim>\<open>undo\<close> and then \<^verbatim>\<open>redo\<close> return nil exactly
  when neither the live map before the rollback nor the checkpointed map holds an
  instance, a class or a function.
\<close>

lemma undo_redo_of_rollback_result:
  assumes "map_of (checkpoints self) (coerced_label L label) = Some stored"
  shows "snd (OInstance_undo L ln2 (fst (OInstance_rollback L label ln (interp, self))))
           = (if list_all json_ok (map snd stored) \<and> list_all json_ok (map snd (ifields self))
              then Inr VNone else Inl (TypeError ''Object is not JSON serializable''))
       \<and> snd (OInstance_redo L ln3 (fst (OInstance_undo L ln2
                (fst (OInstance_rollback L label ln (interp, self))))))
           = (if list_all json_ok (map snd (ifields self)) \<and> list_all json_ok (map snd stored)
              then Inr VNone else Inl (TypeError ''Object is not JSON serializable''))"
proof -
  let ?p = "(''__snapshot__'', Snapshot (ifields self), Snapshot stored, step interp + 1, ln)"
  obtain i1 s1 where rb: "fst (OInstance_rollback L label ln (interp, self)) = (i1, s1)"
    by (cases "fst (OInstance_rollback L label ln (interp, self))")
  have s1: "s1 = self\<lparr>past := past self @ [?p], future := [], ifields := stored\<rparr>"
    using rb rollback_found [OF assms, of ln interp] by simp
  then have p1: "past s1 = past self @ [?p]" by simp
  obtain i2 s2 where un: "fst (OInstance_undo L ln2 (i1, s1)) = (i2, s2)"
    by (cases "fst (OInstance_undo L ln2 (i1, s1))")
  from undo_snapshot_instance [OF p1, of L ln2 i1] un
  have s2: "s2 = s1\<lparr>past := past self, ifields := ifields self, future := future s1 @ [?p]\<rparr>"
    by simp
  then have f2: "future s2 = [] @ [?p]" using s1 by simp
  show ?thesis
    using undo_snapshot_result [OF p1, of L ln2 i1] redo_snapshot_result [OF f2, of L ln3 i2]
    by (simp only: rb un) 
qed

subsection \<open>Booleans as operands, for every library\<close>

lemma binary_op_boolean_operands:
  assumes "ttype operator \<in> {MINUS, STAR, GREATER, GREATER_EQUAL, LESS, LESS_EQUAL}"
    and "as_number L left \<noteq> None" and "as_number L right \<noteq> None"
  shows "\<exists>v. binary_op L operator left right = Inr v"
  using assms by (auto simp add: binary_op_def check_number_operands_def Let_def)

lemma as_number_boolean: "as_number L (VBool b) = Some (n_of_bool L b)"
  by (simp add: as_number_def)

end
